theory Spec2Isabelle
  imports Complex_Main "HOL-Library.AList"
begin

section \<open>Python values, exceptions and the externals of the settings engine\<close>

text \<open>
  The settings engine of Uranium (\<^verbatim>\<open>UM/Settings\<close>) is embedded function by function.
  Python objects that the code only passes around are values of \<open>pyvalue\<close>; a raised
  exception is the left injection of a sum; an object that the code mutates is passed in
  and returned.
\<close>

text \<open>A compiled \<^verbatim>\<open>SettingFunction\<close>: its source text and what \<^verbatim>\<open>getUsedSettings()\<close> returns.\<close>

datatype setting_function = SettingFunction (code: string) (getUsedSettings: "string list")

text \<open>A Python float as \<^verbatim>\<open>json.loads\<close> produces it.\<close>

datatype pyfloat = Finite rat | Infinity bool | NaN

text \<open>
  What \<^verbatim>\<open>json.loads(..., object_pairs_hook=collections.OrderedDict)\<close> yields, plus the
  \<^verbatim>\<open>SettingFunction\<close> objects stored as property values. A mapping keeps its insertion order.
\<close>

datatype pyvalue =
    PNone
  | PBool bool
  | PInt int
  | PFloat pyfloat
  | PStr string
  | PList "pyvalue list"
  | PDict "(string \<times> pyvalue) list"
  | PFunction setting_function

datatype error =
    IndexError
  | TypeError
  | ValueError
  | KeyError string
  | AttributeError string
    \<comment> \<open>\<^verbatim>\<open>AttributeError("Setting {0} is missing required property {1}")\<close>\<close>
  | MissingRequiredProperty string string
  | RecursionError
  | IncorrectVersionError
  | InvalidContainerStackError
  | InvalidDefinitionError string
  | IncorrectDefinitionVersionError
  | InvalidOverrideError
  | Exception string
    \<comment> \<open>an exception of a library outside the repository (parser, file system)\<close>
  | ExternalError string
    \<comment> \<open>Python accepts the input here; this development does not follow it\<close>
  | NotModelled

subsection \<open>Built-in operations on values\<close>

text \<open>\<^verbatim>\<open>needle in haystack\<close> for two strings.\<close>

fun is_substring :: "string \<Rightarrow> string \<Rightarrow> bool" where
  "is_substring needle [] = (needle = [])"
| "is_substring needle (c # cs) = (take (length needle) (c # cs) = needle \<or> is_substring needle cs)"

text \<open>
  \<^verbatim>\<open>key in obj\<close> for a string \<open>key\<close>: key membership for a mapping, element membership for a
  list, substring test for a string, \<^verbatim>\<open>TypeError\<close> for everything that is not iterable.
\<close>

fun py_contains :: "pyvalue \<Rightarrow> string \<Rightarrow> error + bool" where
  "py_contains (PDict kvs) k = Inr (k \<in> set (map fst kvs))"
| "py_contains (PList xs) k = Inr (PStr k \<in> set xs)"
| "py_contains (PStr s) k = Inr (is_substring k s)"
| "py_contains _ k = Inl TypeError"

text \<open>\<^verbatim>\<open>obj[key]\<close> for a string \<open>key\<close>.\<close>

fun py_getitem :: "pyvalue \<Rightarrow> string \<Rightarrow> error + pyvalue" where
  "py_getitem (PDict kvs) k = (case map_of kvs k of None \<Rightarrow> Inl (KeyError k) | Some v \<Rightarrow> Inr v)"
| "py_getitem _ k = Inl TypeError"

text \<open>\<^verbatim>\<open>obj.items()\<close>: only a mapping has the method.\<close>

fun py_items :: "pyvalue \<Rightarrow> error + (string \<times> pyvalue) list" where
  "py_items (PDict kvs) = Inr kvs"
| "py_items _ = Inl (AttributeError ''items'')"

text \<open>\<^verbatim>\<open>d[k] = v\<close> on an ordered mapping: an existing key keeps its place.\<close>

definition dict_set :: "(string \<times> 'v) list \<Rightarrow> string \<Rightarrow> 'v \<Rightarrow> (string \<times> 'v) list" where
  "dict_set d k v = AList.update k v d"

text \<open>\<^verbatim>\<open>value != n\<close> for an integer constant \<open>n\<close>: numbers compare by value, \<^verbatim>\<open>True\<close> is 1.\<close>

fun py_ne_int :: "pyvalue \<Rightarrow> int \<Rightarrow> bool" where
  "py_ne_int (PInt i) n = (i \<noteq> n)"
| "py_ne_int (PBool b) n = ((if b then 1 else 0) \<noteq> n)"
| "py_ne_int (PFloat (Finite r)) n = (r \<noteq> of_int n)"
| "py_ne_int _ n = True"

text \<open>
  Python list indexing: a negative index counts from the end, an index outside the list
  raises \<^verbatim>\<open>IndexError\<close>, an object that is no integer raises \<^verbatim>\<open>TypeError\<close>.
\<close>

datatype py_index =
    IntIndex int
    \<comment> \<open>an object that is no integer (nor a slice) and does not compare equal to -1\<close>
  | OtherIndex

definition list_position :: "'a list \<Rightarrow> int \<Rightarrow> nat option" where
  "list_position xs i =
     (if 0 \<le> i \<and> i < int (length xs) then Some (nat i)
      else if i < 0 \<and> - int (length xs) \<le> i then Some (nat (int (length xs) + i))
      else None)"

definition list_getitem :: "'a list \<Rightarrow> py_index \<Rightarrow> error + 'a" where
  "list_getitem xs index =
     (case index of
        OtherIndex \<Rightarrow> Inl TypeError
      | IntIndex i \<Rightarrow> (case list_position xs i of None \<Rightarrow> Inl IndexError | Some j \<Rightarrow> Inr (xs ! j)))"

definition list_setitem :: "'a list \<Rightarrow> py_index \<Rightarrow> 'a \<Rightarrow> error + 'a list" where
  "list_setitem xs index v =
     (case index of
        OtherIndex \<Rightarrow> Inl TypeError
      | IntIndex i \<Rightarrow> (case list_position xs i of None \<Rightarrow> Inl IndexError | Some j \<Rightarrow> Inr (xs[j := v])))"

definition list_delitem :: "'a list \<Rightarrow> py_index \<Rightarrow> error + 'a list" where
  "list_delitem xs index =
     (case index of
        OtherIndex \<Rightarrow> Inl TypeError
      | IntIndex i \<Rightarrow>
          (case list_position xs i of None \<Rightarrow> Inl IndexError | Some j \<Rightarrow> Inr (take j xs @ drop (Suc j) xs)))"

section \<open>SettingDefinition\<close>

datatype definition_property_type = Any | String | TranslatedString | Function

text \<open>One entry of the class-level table \<^verbatim>\<open>SettingDefinition.__property_definitions\<close>.\<close>

record property_definition =
  ptype :: definition_property_type
  required :: bool
  read_only :: bool

text \<open>
  What the code reads but the repository's sources here do not define is collected in
  \<open>env\<close>: the two class-level tables (\<^verbatim>\<open>addSupportedProperty\<close> and \<^verbatim>\<open>addSettingType\<close> extend
  them at run time, so they are not constants), the built-in \<^verbatim>\<open>str\<close>, \<^verbatim>\<open>json.loads\<close>,
  \<^verbatim>\<open>DefinitionContainer._loadFile\<close> (a file looked up through \<^verbatim>\<open>Resources\<close>) and the
  constructor of \<^verbatim>\<open>SettingFunction\<close>.
\<close>

record env =
  property_definitions :: "(string \<times> property_definition) list"
  type_definitions :: "string list"
  py_str :: "pyvalue \<Rightarrow> string"
  json_loads :: "string \<Rightarrow> error + pyvalue"
  loadFile :: "string \<Rightarrow> error + pyvalue"
  new_SettingFunction :: "string \<Rightarrow> error + setting_function"

text \<open>
  A definition object: \<^verbatim>\<open>_key\<close>, \<^verbatim>\<open>_children\<close> and the private \<^verbatim>\<open>__property_values\<close>. The
  back references \<^verbatim>\<open>_container\<close> and \<^verbatim>\<open>_parent\<close> are the position of the object in its
  container; \<^verbatim>\<open>_relations\<close>, which the container fills in after all definitions exist,
  is kept in the container, indexed by that position.
\<close>

datatype setting_definition =
  SettingDefinition (key: string) (children: "setting_definition list")
    (property_values: "(string \<times> pyvalue) list")

text \<open>
  A reference to a definition object of a container: the index of its root in
  \<^verbatim>\<open>_definitions\<close>, then the index among the children at each level.
\<close>

type_synonym path = "nat list"

datatype relation_type = RequiresTarget | RequiredByTarget

record setting_relation =
  owner :: path
  target :: path
  rtype :: relation_type
  role :: string

text \<open>\<^verbatim>\<open>SettingDefinition.__getattr__\<close>, reached for every name that is no ordinary attribute.\<close>

definition getattr_sd :: "env \<Rightarrow> setting_definition \<Rightarrow> string \<Rightarrow> error + pyvalue" where
  "getattr_sd E d name =
     (if name \<in> set (map fst (property_definitions E)) \<and> name \<in> set (map fst (property_values d))
      then (case map_of (property_values d) name of Some v \<Rightarrow> Inr v | None \<Rightarrow> Inl (KeyError name))
      else Inl (AttributeError name))"

text \<open>\<^verbatim>\<open>hasattr(definition, name)\<close> for a property name.\<close>

definition hasattr_sd :: "env \<Rightarrow> setting_definition \<Rightarrow> string \<Rightarrow> bool" where
  "hasattr_sd E d name = (case getattr_sd E d name of Inl _ \<Rightarrow> False | Inr _ \<Rightarrow> True)"

text \<open>
  \<^verbatim>\<open>SettingDefinition.findDefinitions(key = k)\<close>, the only criterion the containers pass:
  the object itself when its key equals \<open>k\<close>, then the matches of each child in order.
  An object is returned as its reference together with its content.
\<close>

fun findDefinitions_sd :: "path \<Rightarrow> setting_definition \<Rightarrow> string \<Rightarrow> (path \<times> setting_definition) list"
and findDefinitions_children ::
  "path \<Rightarrow> nat \<Rightarrow> setting_definition list \<Rightarrow> string \<Rightarrow> (path \<times> setting_definition) list" where
  "findDefinitions_sd p (SettingDefinition dkey chs pv) k =
     (if dkey \<noteq> k then [] else [(p, SettingDefinition dkey chs pv)])
     @ findDefinitions_children p 0 chs k"
| "findDefinitions_children p i [] k = []"
| "findDefinitions_children p i (c # cs) k =
     findDefinitions_sd (p @ [i]) c k @ findDefinitions_children p (Suc i) cs k"

section \<open>DefinitionContainer: state and lookup\<close>

text \<open>A message the code hands to \<^verbatim>\<open>Logger.log("w", ...)\<close>.\<close>

datatype log_entry =
    \<comment> \<open>\<^verbatim>\<open>"Function for definition %s references unknown definition %s"\<close>\<close>
    UnknownDefinition string string

text \<open>
  The fields of a \<^verbatim>\<open>DefinitionContainer\<close>. \<open>relations\<close> holds, for each definition object
  of the container, its \<^verbatim>\<open>_relations\<close> list; \<open>log\<close> collects the warnings the container
  has sent to the logger.
\<close>

record definition_container =
  dc_id :: string
  dc_name :: pyvalue
  dc_metadata :: pyvalue
  definitions :: "setting_definition list"
  i18n_catalog :: "(string \<Rightarrow> string) option"
  relations :: "path \<Rightarrow> setting_relation list"
  log :: "log_entry list"

text \<open>\<^verbatim>\<open>DefinitionContainer(container_id, i18n_catalog)\<close>.\<close>

definition new_DefinitionContainer :: "string \<Rightarrow> (string \<Rightarrow> string) option \<Rightarrow> definition_container" where
  "new_DefinitionContainer container_id catalog =
     \<lparr>dc_id = container_id, dc_name = PStr container_id, dc_metadata = PDict [], definitions = [],
      i18n_catalog = catalog, relations = (\<lambda>p. []), log = []\<rparr>"

text \<open>\<^verbatim>\<open>DefinitionContainer.findDefinitions(key = k)\<close>: the matches of each root in order.\<close>

definition findDefinitions_dc :: "definition_container \<Rightarrow> string \<Rightarrow> (path \<times> setting_definition) list" where
  "findDefinitions_dc c k = findDefinitions_children [] 0 (definitions c) k"

text \<open>\<^verbatim>\<open>DefinitionContainer.getValue\<close>; the result \<open>PNone\<close> is Python's \<^verbatim>\<open>None\<close>.\<close>

definition getValue_dc :: "env \<Rightarrow> definition_container \<Rightarrow> string \<Rightarrow> error + pyvalue" where
  "getValue_dc E c k =
     (case findDefinitions_dc c k of
        [] \<Rightarrow> Inr PNone
      | (p, d) # rest \<Rightarrow> getattr_sd E d ''default_value'')"

section \<open>ContainerStack\<close>

text \<open>
  \<^verbatim>\<open>InstanceContainer\<close> is not among the sources: an instance container is its id and
  whatever its \<^verbatim>\<open>getValue\<close> answers.
\<close>

record instance_container =
  ic_id :: string
  ic_getValue :: "string \<Rightarrow> error + pyvalue"

text \<open>
  A stack and what it can hold. The object graph is a finite tree here: the source does not
  check for a stack that reaches itself through its containers or its next stack, and
  leaves that to the caller. \<open>stack_name\<close> is a string, as \<^verbatim>\<open>getName\<close> returns it.
\<close>

datatype container_stack =
  ContainerStack (stack_id: string) (stack_name: string) (stack_metadata: "(string \<times> string) list")
    (containers: "container list") (next_stack: "container_stack option")
and container =
    DefinitionC definition_container
  | InstanceC instance_container
  | StackC container_stack

text \<open>\<^verbatim>\<open>ContainerStack(stack_id)\<close>.\<close>

definition new_ContainerStack :: "string \<Rightarrow> container_stack" where
  "new_ContainerStack sid = ContainerStack sid sid [] [] None"

definition set_containers :: "container list \<Rightarrow> container_stack \<Rightarrow> container_stack" where
  "set_containers cs s = ContainerStack (stack_id s) (stack_name s) (stack_metadata s) cs (next_stack s)"

text \<open>\<^verbatim>\<open>container.getId()\<close>.\<close>

fun getId :: "container \<Rightarrow> string" where
  "getId (DefinitionC d) = dc_id d"
| "getId (InstanceC i) = ic_id i"
| "getId (StackC s) = stack_id s"

text \<open>
  \<^verbatim>\<open>ContainerStack.getValue\<close>. \<open>scan_containers\<close> is the \<^verbatim>\<open>for\<close> loop: it stops at the first
  container whose value \<^verbatim>\<open>is not None\<close>, and an exception of a container ends the call.
\<close>

fun getValue_stack :: "env \<Rightarrow> container_stack \<Rightarrow> string \<Rightarrow> error + pyvalue"
and scan_containers :: "env \<Rightarrow> container list \<Rightarrow> string \<Rightarrow> error + pyvalue option"
and getValue_container :: "env \<Rightarrow> container \<Rightarrow> string \<Rightarrow> error + pyvalue" where
  "getValue_stack E (ContainerStack sid name md cs None) k =
     (case scan_containers E cs k of
        Inl e \<Rightarrow> Inl e
      | Inr (Some v) \<Rightarrow> Inr v
      | Inr None \<Rightarrow> Inr PNone)"
| "getValue_stack E (ContainerStack sid name md cs (Some nxt)) k =
     (case scan_containers E cs k of
        Inl e \<Rightarrow> Inl e
      | Inr (Some v) \<Rightarrow> Inr v
      | Inr None \<Rightarrow> getValue_stack E nxt k)"
| "scan_containers E [] k = Inr None"
| "scan_containers E (c # cs) k =
     (case getValue_container E c k of
        Inl e \<Rightarrow> Inl e
      | Inr v \<Rightarrow> if v \<noteq> PNone then Inr (Some v) else scan_containers E cs k)"
| "getValue_container E (DefinitionC d) k = getValue_dc E d k"
| "getValue_container E (InstanceC i) k = ic_getValue i k"
| "getValue_container E (StackC s) k = getValue_stack E s k"

text \<open>\<^verbatim>\<open>ContainerStack.getContainer\<close>; it assigns nothing, so it has no state to return.\<close>

definition getContainer :: "container_stack \<Rightarrow> py_index \<Rightarrow> error + container" where
  "getContainer s index =
     (if index = IntIndex (- 1) then Inl IndexError
      else list_getitem (containers s) index)"

text \<open>The argument of \<^verbatim>\<open>addContainer\<close> and \<^verbatim>\<open>replaceContainer\<close>: the stack itself or another object.\<close>

datatype container_arg = Self | Other container

text \<open>\<^verbatim>\<open>ContainerStack.replaceContainer\<close>: the outcome and the stack afterwards.\<close>

definition replaceContainer ::
  "container_stack \<Rightarrow> py_index \<Rightarrow> container_arg \<Rightarrow> (error + unit) \<times> container_stack" where
  "replaceContainer s index arg =
     (if index = IntIndex (- 1) then (Inl IndexError, s)
      else case arg of
        Self \<Rightarrow> (Inl (Exception ''Unable to replace container with ContainerStack (self) ''), s)
      | Other c \<Rightarrow>
          (case list_setitem (containers s) index c of
             Inl e \<Rightarrow> (Inl e, s)
           | Inr cs \<Rightarrow> (Inr (), set_containers cs s)))"

text \<open>
  \<^verbatim>\<open>ContainerStack.removeContainer\<close>: a \<^verbatim>\<open>TypeError\<close> of the deletion is turned into an
  \<^verbatim>\<open>IndexError\<close>, any other exception passes.
\<close>

definition removeContainer :: "container_stack \<Rightarrow> py_index \<Rightarrow> (error + unit) \<times> container_stack" where
  "removeContainer s index =
     (if index = IntIndex (- 1) then (Inl IndexError, s)
      else case list_delitem (containers s) index of
        Inl TypeError \<Rightarrow> (Inl IndexError, s)
      | Inl e \<Rightarrow> (Inl e, s)
      | Inr cs \<Rightarrow> (Inr (), set_containers cs s))"

text \<open>\<^verbatim>\<open>ContainerStack.addContainer\<close>.\<close>

definition addContainer :: "container_stack \<Rightarrow> container_arg \<Rightarrow> (error + unit) \<times> container_stack" where
  "addContainer s arg =
     (case arg of
        Other c \<Rightarrow> (Inr (), set_containers (c # containers s) s)
      | Self \<Rightarrow> (Inl (Exception ''Unable to add stack to itself.''), s))"

text \<open>Sequencing of two steps of which the first may raise.\<close>

definition sum_bind :: "'err + 'x \<Rightarrow> ('x \<Rightarrow> 'err + 'y) \<Rightarrow> 'err + 'y" where
  "sum_bind m f = (case m of Inl e \<Rightarrow> Inl e | Inr x \<Rightarrow> f x)"

section \<open>SettingDefinition.deserialize\<close>

text \<open>\<^verbatim>\<open>key in self.__property_definitions\<close> and \<^verbatim>\<open>self.__property_definitions[key]\<close>.\<close>

definition is_property :: "env \<Rightarrow> string \<Rightarrow> bool" where
  "is_property E name = (name \<in> set (map fst (property_definitions E)))"

definition is_required :: "env \<Rightarrow> string \<Rightarrow> bool" where
  "is_required E name =
     (case map_of (property_definitions E) name of None \<Rightarrow> False | Some pd \<Rightarrow> required pd)"

text \<open>\<^verbatim>\<open>SettingDefinition.getPropertyNames(type)\<close> for a given type.\<close>

definition getPropertyNames :: "env \<Rightarrow> definition_property_type \<Rightarrow> string list" where
  "getPropertyNames E t =
     filter (\<lambda>name. case map_of (property_definitions E) name of
                       None \<Rightarrow> False | Some pd \<Rightarrow> ptype pd = t)
       (map fst (property_definitions E))"

text \<open>
  The test \<^verbatim>\<open>value not in self.__type_definitions\<close> on the value of the key \<^verbatim>\<open>type\<close>: a list
  or a mapping cannot be hashed, anything else that is no registered name is rejected.
\<close>

fun check_type :: "env \<Rightarrow> pyvalue \<Rightarrow> error + unit" where
  "check_type E (PStr s) = (if s \<in> set (type_definitions E) then Inr () else Inl ValueError)"
| "check_type E (PList xs) = Inl TypeError"
| "check_type E (PDict kvs) = Inl TypeError"
| "check_type E v = Inl ValueError"

text \<open>The value stored for a property of each type (the \<^verbatim>\<open>if\<close>/\<^verbatim>\<open>elif\<close> chain).\<close>

definition property_value ::
  "env \<Rightarrow> (string \<Rightarrow> string) option \<Rightarrow> definition_property_type \<Rightarrow> pyvalue \<Rightarrow> error + pyvalue" where
  "property_value E catalog t v =
     (case t of
        Any \<Rightarrow> Inr v
      | String \<Rightarrow> Inr (PStr (py_str E v))
      | TranslatedString \<Rightarrow>
          (case catalog of None \<Rightarrow> Inr v | Some i18n \<Rightarrow> Inr (PStr (i18n (py_str E v))))
      | Function \<Rightarrow>
          (case new_SettingFunction E (py_str E v) of
             Inl e \<Rightarrow> Inl e
           | Inr f \<Rightarrow> Inr (PFunction f)))"

text \<open>The required properties that \<open>pv\<close> lacks, in the order of the table.\<close>

definition missing_required :: "env \<Rightarrow> (string \<times> pyvalue) list \<Rightarrow> string list" where
  "missing_required E pv =
     filter (\<lambda>name. name \<notin> set (map fst pv))
       (filter (is_required E) (map fst (property_definitions E)))"

text \<open>
  \<^verbatim>\<open>SettingDefinition(key, container, parent, catalog).deserialize(serialized)\<close>, returning
  the object built. The call for a child is the argument \<open>child\<close> of the four functions
  below; it is absent where the interpreter's recursion limit admits no further level of
  children, and a child there ends the call in \<^verbatim>\<open>RecursionError\<close>.
  \<open>deserialize_children\<close> is the loop over the entries of \<^verbatim>\<open>children\<close>,
  \<open>deserialize_items\<close> the loop over the keys of the document, with the children and the
  property values collected so far, \<open>deserialize_dict\<close> is \<^verbatim>\<open>_deserialize_dict\<close> and
  \<open>deserialize_doc\<close> is \<^verbatim>\<open>deserialize\<close>. The warning logged for an unrecognised property
  changes no object and is not recorded.
\<close>

type_synonym child_call = "(string \<Rightarrow> pyvalue \<Rightarrow> error + setting_definition) option"

fun deserialize_children ::
  "child_call \<Rightarrow> (string \<times> pyvalue) list \<Rightarrow> setting_definition list
   \<Rightarrow> error + setting_definition list" where
  "deserialize_children child [] chs = Inr chs"
| "deserialize_children None ((child_key, child_dict) # rest) chs = Inl RecursionError"
| "deserialize_children (Some deserialize) ((child_key, child_dict) # rest) chs =
     (case deserialize child_key child_dict of
        Inl e \<Rightarrow> Inl e
      | Inr c \<Rightarrow> deserialize_children (Some deserialize) rest (chs @ [c]))"

fun deserialize_items ::
  "child_call \<Rightarrow> env \<Rightarrow> (string \<Rightarrow> string) option \<Rightarrow> (string \<times> pyvalue) list
   \<Rightarrow> setting_definition list \<times> (string \<times> pyvalue) list
   \<Rightarrow> error + setting_definition list \<times> (string \<times> pyvalue) list" where
  "deserialize_items child E catalog [] st = Inr st"
| "deserialize_items child E catalog ((name, v) # rest) (chs, pv) =
     (if name = ''children'' then
        (case py_items v of
           Inl e \<Rightarrow> Inl e
         | Inr entries \<Rightarrow>
             (case deserialize_children child entries chs of
                Inl e \<Rightarrow> Inl e
              | Inr chs' \<Rightarrow> deserialize_items child E catalog rest (chs', pv)))
      else if \<not> is_property E name then deserialize_items child E catalog rest (chs, pv)
      else
        (case (if name = ''type'' then check_type E v else Inr ()) of
           Inl e \<Rightarrow> Inl e
         | Inr u \<Rightarrow>
             (case map_of (property_definitions E) name of
                None \<Rightarrow> Inl (KeyError name)
              | Some pd \<Rightarrow>
                  (case property_value E catalog (ptype pd) v of
                     Inl e \<Rightarrow> Inl e
                   | Inr x \<Rightarrow> deserialize_items child E catalog rest (chs, dict_set pv name x)))))"

definition deserialize_dict ::
  "child_call \<Rightarrow> env \<Rightarrow> (string \<Rightarrow> string) option \<Rightarrow> string \<Rightarrow> (string \<times> pyvalue) list
   \<Rightarrow> error + setting_definition" where
  "deserialize_dict child E catalog k items =
     (case deserialize_items child E catalog items ([], []) of
        Inl e \<Rightarrow> Inl e
      | Inr (chs, pv) \<Rightarrow>
          (case missing_required E pv of
             name # rest \<Rightarrow> Inl (MissingRequiredProperty k name)
           | [] \<Rightarrow> Inr (SettingDefinition k chs pv)))"

fun deserialize_doc ::
  "child_call \<Rightarrow> env \<Rightarrow> (string \<Rightarrow> string) option \<Rightarrow> string \<Rightarrow> pyvalue
   \<Rightarrow> error + setting_definition" where
  "deserialize_doc child E catalog k (PDict items) = deserialize_dict child E catalog k items"
| "deserialize_doc child E catalog k (PStr text) =
     (case json_loads E text of
        Inl e \<Rightarrow> Inl e
      | Inr parsed \<Rightarrow>
          (case py_items parsed of
             Inl e \<Rightarrow> Inl e
           | Inr items \<Rightarrow> deserialize_dict child E catalog k items))"
| "deserialize_doc child E catalog k other = Inl TypeError"

text \<open>
  The whole call: the number is how many further levels of children the recursion limit
  admits.
\<close>

primrec deserialize_sd ::
  "nat \<Rightarrow> env \<Rightarrow> (string \<Rightarrow> string) option \<Rightarrow> string \<Rightarrow> pyvalue \<Rightarrow> error + setting_definition" where
  "deserialize_sd 0 E catalog = deserialize_doc None E catalog"
| "deserialize_sd (Suc n) E catalog = deserialize_doc (Some (deserialize_sd n E catalog)) E catalog"

section \<open>DefinitionContainer.deserialize\<close>

definition Version_dc :: int where
  "Version_dc = 2"

text \<open>\<^verbatim>\<open>DefinitionContainer._verifyJson\<close>.\<close>

definition verifyJson :: "pyvalue \<Rightarrow> error + unit" where
  "verifyJson json =
     (case py_contains json ''version'' of
        Inl e \<Rightarrow> Inl e
      | Inr False \<Rightarrow> Inl (InvalidDefinitionError ''Missing required property version'')
      | Inr True \<Rightarrow>
          (case py_contains json ''name'' of
             Inl e \<Rightarrow> Inl e
           | Inr False \<Rightarrow> Inl (InvalidDefinitionError ''Missing required property name'')
           | Inr True \<Rightarrow>
               (case py_getitem json ''version'' of
                  Inl e \<Rightarrow> Inl e
                | Inr v \<Rightarrow>
                    if py_ne_int v Version_dc then Inl IncorrectDefinitionVersionError
                    else Inr ())))"

text \<open>
  \<^verbatim>\<open>DefinitionContainer._mergeDicts(first, second)\<close>, with the items of \<open>second\<close> and the
  copy of \<open>first\<close> that the loop updates. Where that copy is no mapping, the membership
  test, the read or the assignment raises \<^verbatim>\<open>TypeError\<close>.
\<close>

function mergeDicts :: "pyvalue \<Rightarrow> (string \<times> pyvalue) list \<Rightarrow> error + pyvalue" where
  "mergeDicts result [] = Inr result"
| "mergeDicts result ((k, v) # rest) =
     (case result of
        PDict r \<Rightarrow>
          (case map_of r k of
             None \<Rightarrow> mergeDicts (PDict (dict_set r k v)) rest
           | Some old \<Rightarrow>
               (case v of
                  PDict items \<Rightarrow>
                    (case mergeDicts old items of
                       Inl e \<Rightarrow> Inl e
                     | Inr merged \<Rightarrow> mergeDicts (PDict (dict_set r k merged)) rest)
                | _ \<Rightarrow> mergeDicts (PDict (dict_set r k v)) rest))
      | _ \<Rightarrow> Inl TypeError)"
  by pat_completeness auto
termination
  by (relation "measure (\<lambda>(result, items). size_list (size_prod (\<lambda>k. 0) size) items)") auto

text \<open>
  \<^verbatim>\<open>DefinitionContainer._resolveInheritance(file_name)\<close>. \<^verbatim>\<open>_loadFile\<close> appends a suffix to
  the name, so a name that is no string raises \<^verbatim>\<open>TypeError\<close>. The first argument bounds
  the length of the chain of \<^verbatim>\<open>inherits\<close> by the interpreter's recursion limit.
\<close>

fun resolveInheritance :: "nat \<Rightarrow> env \<Rightarrow> pyvalue \<Rightarrow> error + pyvalue" where
  "resolveInheritance 0 E file_name = Inl RecursionError"
| "resolveInheritance (Suc n) E file_name =
     (case file_name of
        PStr name \<Rightarrow>
          (case loadFile E name of
             Inl e \<Rightarrow> Inl e
           | Inr json \<Rightarrow>
               (case verifyJson json of
                  Inl e \<Rightarrow> Inl e
                | Inr u \<Rightarrow>
                    (case py_contains json ''inherits'' of
                       Inl e \<Rightarrow> Inl e
                     | Inr False \<Rightarrow> Inr json
                     | Inr True \<Rightarrow>
                         (case py_getitem json ''inherits'' of
                            Inl e \<Rightarrow> Inl e
                          | Inr base \<Rightarrow>
                              (case resolveInheritance n E base of
                                 Inl e \<Rightarrow> Inl e
                               | Inr inherited \<Rightarrow>
                                   (case py_items json of
                                      Inl e \<Rightarrow> Inl e
                                    | Inr items \<Rightarrow> mergeDicts inherited items))))))
      | _ \<Rightarrow> Inl TypeError)"

text \<open>
  \<^verbatim>\<open>DefinitionContainer._findInDict(dict, key)\<close>. The value of the recursive call is dropped
  and \<^verbatim>\<open>result\<close> is never assigned, so the loop can only raise or end in \<^verbatim>\<open>None\<close>.
\<close>

function findInDict :: "pyvalue \<Rightarrow> string \<Rightarrow> error + pyvalue"
and findInDict_loop :: "(string \<times> pyvalue) list \<Rightarrow> string \<Rightarrow> error + pyvalue" where
  "findInDict d k =
     (case py_contains d k of
        Inl e \<Rightarrow> Inl e
      | Inr True \<Rightarrow> Inr d
      | Inr False \<Rightarrow>
          (case d of
             PDict kvs \<Rightarrow> findInDict_loop kvs k
           | _ \<Rightarrow> Inl (AttributeError ''items'')))"
| "findInDict_loop [] k = Inr PNone"
| "findInDict_loop ((dict_key, v) # rest) k =
     (case findInDict v k of
        Inl e \<Rightarrow> Inl e
      | Inr found \<Rightarrow> findInDict_loop rest k)"
  by pat_completeness auto
termination
  by (relation "measure (\<lambda>x. case x of
        Inl (d, k) \<Rightarrow> size d
      | Inr (kvs, k) \<Rightarrow> size_list (size_prod (\<lambda>k. 0) size) kvs)") auto

text \<open>
  \<^verbatim>\<open>setting.update(value)\<close>. A mapping is merged key by key; \<^verbatim>\<open>None\<close> and numbers are not
  iterable; an empty sequence changes nothing. Python also takes a non-empty sequence of
  pairs, which no document of the format holds; that case is left out.
\<close>

fun py_update :: "pyvalue \<Rightarrow> pyvalue \<Rightarrow> error + pyvalue" where
  "py_update (PDict d) (PDict v) = Inr (PDict (fold (\<lambda>(k, x) acc. dict_set acc k x) v d))"
| "py_update (PDict d) (PList []) = Inr (PDict d)"
| "py_update (PDict d) (PStr []) = Inr (PDict d)"
| "py_update (PDict d) (PList (x # xs)) = Inl NotModelled"
| "py_update (PDict d) (PStr (c # cs)) = Inl NotModelled"
| "py_update (PDict d) v = Inl TypeError"
| "py_update obj v = Inl (AttributeError ''update'')"

text \<open>
  The loop over \<^verbatim>\<open>parsed["overrides"].items()\<close>. \<^verbatim>\<open>_findInDict\<close> hands back either its
  argument, which is the object \<^verbatim>\<open>parsed["settings"]\<close>, or \<^verbatim>\<open>None\<close>; \<^verbatim>\<open>update\<close> changes that
  object in place, so the document afterwards holds the updated mapping under \<^verbatim>\<open>settings\<close>.
\<close>

fun replace_item :: "pyvalue \<Rightarrow> string \<Rightarrow> pyvalue \<Rightarrow> pyvalue" where
  "replace_item (PDict d) k v = PDict (dict_set d k v)"
| "replace_item other k v = other"

fun overrides_loop :: "pyvalue \<Rightarrow> (string \<times> pyvalue) list \<Rightarrow> error + pyvalue" where
  "overrides_loop parsed [] = Inr parsed"
| "overrides_loop parsed ((k, v) # rest) =
     (case py_getitem parsed ''settings'' of
        Inl e \<Rightarrow> Inl e
      | Inr settings \<Rightarrow>
          (case findInDict settings k of
             Inl e \<Rightarrow> Inl e
           | Inr setting \<Rightarrow>
               (case py_update setting v of
                  Inl e \<Rightarrow> Inl e
                | Inr updated \<Rightarrow> overrides_loop (replace_item parsed ''settings'' updated) rest)))"

text \<open>The step \<^verbatim>\<open>if "overrides" in parsed\<close> of \<^verbatim>\<open>deserialize\<close>.\<close>

definition apply_overrides :: "pyvalue \<Rightarrow> error + pyvalue" where
  "apply_overrides parsed =
     (case py_contains parsed ''overrides'' of
        Inl e \<Rightarrow> Inl e
      | Inr False \<Rightarrow> Inr parsed
      | Inr True \<Rightarrow>
          (case py_getitem parsed ''overrides'' of
             Inl e \<Rightarrow> Inl e
           | Inr overrides \<Rightarrow>
               (case py_items overrides of
                  Inl e \<Rightarrow> Inl e
                | Inr items \<Rightarrow> overrides_loop parsed items)))"

text \<open>The step \<^verbatim>\<open>if "inherits" in parsed\<close> of \<^verbatim>\<open>deserialize\<close>.\<close>

definition apply_inherits :: "nat \<Rightarrow> env \<Rightarrow> pyvalue \<Rightarrow> error + pyvalue" where
  "apply_inherits n E parsed =
     (case py_contains parsed ''inherits'' of
        Inl e \<Rightarrow> Inl e
      | Inr False \<Rightarrow> Inr parsed
      | Inr True \<Rightarrow>
          (case py_getitem parsed ''inherits'' of
             Inl e \<Rightarrow> Inl e
           | Inr base \<Rightarrow>
               (case resolveInheritance n E base of
                  Inl e \<Rightarrow> Inl e
                | Inr inherited \<Rightarrow>
                    (case py_items parsed of
                       Inl e \<Rightarrow> Inl e
                     | Inr items \<Rightarrow> mergeDicts inherited items))))"

text \<open>
  \<^verbatim>\<open>deserialize\<close> up to the two required sections: parse, verify, inherit, override. Nothing
  of the container is assigned in this part.
\<close>

definition preprocess :: "nat \<Rightarrow> env \<Rightarrow> string \<Rightarrow> error + pyvalue" where
  "preprocess n E serialized =
     (case json_loads E serialized of
        Inl e \<Rightarrow> Inl e
      | Inr parsed \<Rightarrow>
          (case verifyJson parsed of
             Inl e \<Rightarrow> Inl e
           | Inr u \<Rightarrow>
               (case apply_inherits n E parsed of
                  Inl e \<Rightarrow> Inl e
                | Inr merged \<Rightarrow> apply_overrides merged)))"

text \<open>The loop over \<^verbatim>\<open>parsed["settings"].items()\<close>: each definition built is appended.\<close>

fun load_settings ::
  "nat \<Rightarrow> env \<Rightarrow> definition_container \<Rightarrow> (string \<times> pyvalue) list
   \<Rightarrow> (error + unit) \<times> definition_container" where
  "load_settings n E c [] = (Inr (), c)"
| "load_settings n E c ((k, v) # rest) =
     (case deserialize_sd n E (i18n_catalog c) k v of
        Inl e \<Rightarrow> (Inl e, c)
      | Inr d \<Rightarrow> load_settings n E (c\<lparr>definitions := definitions c @ [d]\<rparr>) rest)"

subsection \<open>Relations\<close>

definition add_relation :: "path \<Rightarrow> setting_relation \<Rightarrow> definition_container \<Rightarrow> definition_container" where
  "add_relation p r c = c\<lparr>relations := (relations c)(p := relations c p @ [r])\<rparr>"

text \<open>
  The body of the loop of \<^verbatim>\<open>_processFunction\<close> for one used setting: \<open>p\<close> refers to
  \<^verbatim>\<open>definition\<close>, \<open>k\<close> is its key.
\<close>

definition relate_setting ::
  "path \<Rightarrow> string \<Rightarrow> string \<Rightarrow> string \<Rightarrow> definition_container \<Rightarrow> definition_container" where
  "relate_setting p k property setting c =
     (case findDefinitions_dc c setting of
        [] \<Rightarrow> c\<lparr>log := log c @ [UnknownDefinition k setting]\<rparr>
      | (other, d) # others \<Rightarrow>
          add_relation other
            \<lparr>owner = other, target = p, rtype = RequiredByTarget, role = property\<rparr>
            (add_relation p
               \<lparr>owner = p, target = other, rtype = RequiresTarget, role = property\<rparr> c))"

text \<open>
  \<^verbatim>\<open>DefinitionContainer._processFunction(definition, property)\<close>. A property value that is
  no \<^verbatim>\<open>SettingFunction\<close> has no \<^verbatim>\<open>getUsedSettings\<close>.
\<close>

definition processFunction ::
  "env \<Rightarrow> path \<Rightarrow> setting_definition \<Rightarrow> string \<Rightarrow> definition_container
   \<Rightarrow> (error + unit) \<times> definition_container" where
  "processFunction E p d property c =
     (case getattr_sd E d property of
        Inl e \<Rightarrow> (Inl e, c)
      | Inr (PFunction f) \<Rightarrow>
          (Inr (), fold (relate_setting p (key d) property) (getUsedSettings f) c)
      | Inr other \<Rightarrow> (Inl (AttributeError ''getUsedSettings''), c))"

text \<open>
  \<^verbatim>\<open>DefinitionContainer._updateRelations(definition)\<close>: \<open>updateRelations_properties\<close> is its
  first loop, over the names of the function properties, \<open>updateRelations_children\<close> its
  second, over the children; the latter, started at the roots, is also the last loop of
  \<^verbatim>\<open>deserialize\<close>.
\<close>

fun updateRelations_properties ::
  "env \<Rightarrow> path \<Rightarrow> setting_definition \<Rightarrow> string list \<Rightarrow> definition_container
   \<Rightarrow> (error + unit) \<times> definition_container" where
  "updateRelations_properties E p d [] c = (Inr (), c)"
| "updateRelations_properties E p d (property # rest) c =
     (if hasattr_sd E d property then
        (case processFunction E p d property c of
           (Inl e, c') \<Rightarrow> (Inl e, c')
         | (Inr u, c') \<Rightarrow> updateRelations_properties E p d rest c')
      else updateRelations_properties E p d rest c)"

fun updateRelations ::
  "env \<Rightarrow> path \<Rightarrow> setting_definition \<Rightarrow> definition_container
   \<Rightarrow> (error + unit) \<times> definition_container"
and updateRelations_children ::
  "env \<Rightarrow> path \<Rightarrow> nat \<Rightarrow> setting_definition list \<Rightarrow> definition_container
   \<Rightarrow> (error + unit) \<times> definition_container" where
  "updateRelations E p (SettingDefinition dkey chs pv) c =
     (case updateRelations_properties E p (SettingDefinition dkey chs pv)
             (getPropertyNames E Function) c of
        (Inl e, c') \<Rightarrow> (Inl e, c')
      | (Inr u, c') \<Rightarrow> updateRelations_children E p 0 chs c')"
| "updateRelations_children E p i [] c = (Inr (), c)"
| "updateRelations_children E p i (child # rest) c =
     (case updateRelations E (p @ [i]) child c of
        (Inl e, c') \<Rightarrow> (Inl e, c')
      | (Inr u, c') \<Rightarrow> updateRelations_children E p (Suc i) rest c')"

text \<open>
  \<^verbatim>\<open>DefinitionContainer.deserialize\<close>: the outcome and the container afterwards. The
  number bounds the depth of recursion as in \<open>deserialize_sd\<close> and \<open>resolveInheritance\<close>.
\<close>

definition dc_deserialize ::
  "nat \<Rightarrow> env \<Rightarrow> definition_container \<Rightarrow> string \<Rightarrow> (error + unit) \<times> definition_container" where
  "dc_deserialize n E c serialized =
     (case preprocess n E serialized of
        Inl e \<Rightarrow> (Inl e, c)
      | Inr parsed \<Rightarrow>
          (case py_contains parsed ''metadata'' of
             Inl e \<Rightarrow> (Inl e, c)
           | Inr False \<Rightarrow> (Inl (InvalidDefinitionError ''Missing required metadata section''), c)
           | Inr True \<Rightarrow>
               (case py_contains parsed ''settings'' of
                  Inl e \<Rightarrow> (Inl e, c)
                | Inr False \<Rightarrow> (Inl (InvalidDefinitionError ''Missing required settings section''), c)
                | Inr True \<Rightarrow>
                    (case py_getitem parsed ''name'' of
                       Inl e \<Rightarrow> (Inl e, c)
                     | Inr name \<Rightarrow>
                         (case py_getitem parsed ''metadata'' of
                            Inl e \<Rightarrow> (Inl e, c\<lparr>dc_name := name\<rparr>)
                          | Inr md \<Rightarrow>
                              (case sum_bind (py_getitem parsed ''settings'') py_items of
                                 Inl e \<Rightarrow> (Inl e, c\<lparr>dc_name := name, dc_metadata := md\<rparr>)
                               | Inr items \<Rightarrow>
                                   (case load_settings n E (c\<lparr>dc_name := name, dc_metadata := md\<rparr>) items of
                                      (Inl e, c') \<Rightarrow> (Inl e, c')
                                    | (Inr u, c') \<Rightarrow>
                                        updateRelations_children E [] 0 (definitions c') c')))))))"

text \<open>
  All definition objects of a forest with their references, in the order in which
  \<^verbatim>\<open>findDefinitions\<close> and \<^verbatim>\<open>_updateRelations\<close> visit them: a definition before its children.
\<close>

fun all_definitions_sd :: "path \<Rightarrow> setting_definition \<Rightarrow> (path \<times> setting_definition) list"
and all_definitions_children ::
  "path \<Rightarrow> nat \<Rightarrow> setting_definition list \<Rightarrow> (path \<times> setting_definition) list" where
  "all_definitions_sd p (SettingDefinition dkey chs pv) =
     (p, SettingDefinition dkey chs pv) # all_definitions_children p 0 chs"
| "all_definitions_children p i [] = []"
| "all_definitions_children p i (c # cs) =
     all_definitions_sd (p @ [i]) c @ all_definitions_children p (Suc i) cs"

definition all_definitions :: "definition_container \<Rightarrow> (path \<times> setting_definition) list" where
  "all_definitions c = all_definitions_children [] 0 (definitions c)"

section \<open>ContainerStack: serialize and deserialize\<close>

subsection \<open>Text and numbers\<close>

text \<open>\<^verbatim>\<open>str(n)\<close> for an integer.\<close>

definition digit_char :: "nat \<Rightarrow> char" where
  "digit_char n = ''0123456789'' ! n"

function str_nat :: "nat \<Rightarrow> string" where
  "str_nat n = (if n < 10 then [digit_char n] else str_nat (n div 10) @ [digit_char (n mod 10)])"
  by pat_completeness auto
termination
  by (relation "measure (\<lambda>n. n)") auto

declare str_nat.simps [simp del]

definition str_int :: "int \<Rightarrow> string" where
  "str_int i = (if i < 0 then CHR ''-'' # str_nat (nat (- i)) else str_nat (nat i))"

text \<open>
  \<^verbatim>\<open>int(text)\<close> on ASCII text: blanks around, an optional sign, then decimal digits, where
  single underscores may stand between two digits. \<open>None\<close> is \<^verbatim>\<open>ValueError\<close>.
\<close>

definition is_space :: "char \<Rightarrow> bool" where
  "is_space c = (c \<in> set [CHR '' '', CHR 0x09, CHR 0x0A, CHR 0x0B, CHR 0x0C, CHR 0x0D,
                           CHR 0x1C, CHR 0x1D, CHR 0x1E, CHR 0x1F])"

definition strip :: "string \<Rightarrow> string" where
  "strip s = rev (dropWhile is_space (rev (dropWhile is_space s)))"

definition digit_value :: "char \<Rightarrow> nat option" where
  "digit_value c = map_of (zip ''0123456789'' [0, 1, 2, 3, 4, 5, 6, 7, 8, 9]) c"

fun parse_digits :: "string \<Rightarrow> nat \<Rightarrow> nat option" where
  "parse_digits [] acc = Some acc"
| "parse_digits (c # cs) acc =
     (case digit_value c of
        Some d \<Rightarrow> parse_digits cs (10 * acc + d)
      | None \<Rightarrow>
          (if c = CHR ''_'' then
             (case cs of
                [] \<Rightarrow> None
              | c' # cs' \<Rightarrow> (case digit_value c' of None \<Rightarrow> None | Some d \<Rightarrow> parse_digits cs acc))
           else None))"

definition parse_nat :: "string \<Rightarrow> nat option" where
  "parse_nat s =
     (case s of
        [] \<Rightarrow> None
      | c # cs \<Rightarrow> (case digit_value c of None \<Rightarrow> None | Some d \<Rightarrow> parse_digits s 0))"

definition py_int :: "string \<Rightarrow> int option" where
  "py_int text =
     (case strip text of
        [] \<Rightarrow> None
      | c # cs \<Rightarrow>
          if c = CHR ''-'' then map_option (\<lambda>n. - int n) (parse_nat cs)
          else if c = CHR ''+'' then map_option int (parse_nat cs)
          else map_option int (parse_nat (c # cs)))"

text \<open>\<^verbatim>\<open>text.split(",")\<close>.\<close>

fun split_comma :: "string \<Rightarrow> string list" where
  "split_comma [] = [[]]"
| "split_comma (c # cs) =
     (if c = CHR '','' then [] # split_comma cs
      else (case split_comma cs of
              [] \<Rightarrow> [[c]]
            | piece # pieces \<Rightarrow> (c # piece) # pieces))"

subsection \<open>The parser object\<close>

text \<open>
  A \<^verbatim>\<open>configparser.ConfigParser\<close>: the options of the default section and the named
  sections in order. Option names pass through \<^verbatim>\<open>optionxform\<close>, which lowers the case
  (of the ASCII letters here).
\<close>

record config =
  defaults :: "(string \<times> string) list"
  sections :: "(string \<times> (string \<times> string) list) list"

definition lower_char :: "char \<Rightarrow> char" where
  "lower_char c =
     (case map_of (zip ''ABCDEFGHIJKLMNOPQRSTUVWXYZ'' ''abcdefghijklmnopqrstuvwxyz'') c of
        None \<Rightarrow> c
      | Some l \<Rightarrow> l)"

definition optionxform :: "string \<Rightarrow> string" where
  "optionxform s = map lower_char s"

definition new_ConfigParser :: config where
  "new_ConfigParser = \<lparr>defaults = [], sections = []\<rparr>"

text \<open>\<^verbatim>\<open>parser[name] = {}\<close> for a name other than that of the default section.\<close>

definition set_section :: "string \<Rightarrow> config \<Rightarrow> config" where
  "set_section name p = p\<lparr>sections := dict_set (sections p) name []\<rparr>"

text \<open>\<^verbatim>\<open>parser[name][option] = v\<close> for an existing section; a missing one raises \<^verbatim>\<open>KeyError\<close>.\<close>

definition set_option :: "string \<Rightarrow> string \<Rightarrow> string \<Rightarrow> config \<Rightarrow> error + config" where
  "set_option name option v p =
     (case map_of (sections p) name of
        None \<Rightarrow> Inl (KeyError name)
      | Some items \<Rightarrow>
          Inr (p\<lparr>sections := dict_set (sections p) name (dict_set items (optionxform option) v)\<rparr>))"

text \<open>\<^verbatim>\<open>name in parser\<close>, \<^verbatim>\<open>option in parser[name]\<close> and \<^verbatim>\<open>parser[name].get(option, fallback)\<close>.\<close>

definition has_section :: "config \<Rightarrow> string \<Rightarrow> bool" where
  "has_section p name = (name \<in> set (map fst (sections p)))"

definition in_parser :: "config \<Rightarrow> string \<Rightarrow> bool" where
  "in_parser p name = (name = ''DEFAULT'' \<or> has_section p name)"

definition section_get :: "config \<Rightarrow> string \<Rightarrow> string \<Rightarrow> string option" where
  "section_get p name option =
     (case map_of (sections p) name of
        None \<Rightarrow> None
      | Some items \<Rightarrow>
          (case map_of items (optionxform option) of
             Some v \<Rightarrow> Some v
           | None \<Rightarrow> map_of (defaults p) (optionxform option)))"

definition has_option :: "config \<Rightarrow> string \<Rightarrow> string \<Rightarrow> bool" where
  "has_option p name option = (section_get p name option \<noteq> None)"

definition get_fallback :: "config \<Rightarrow> string \<Rightarrow> string \<Rightarrow> string \<Rightarrow> string" where
  "get_fallback p name option fallback =
     (case section_get p name option of None \<Rightarrow> fallback | Some v \<Rightarrow> v)"

text \<open>\<^verbatim>\<open>parser[name].getint(option)\<close> for an option that is present.\<close>

definition getint :: "config \<Rightarrow> string \<Rightarrow> string \<Rightarrow> error + int" where
  "getint p name option =
     (case section_get p name option of
        None \<Rightarrow> Inl TypeError
      | Some v \<Rightarrow> (case py_int v of None \<Rightarrow> Inl ValueError | Some i \<Rightarrow> Inr i))"

text \<open>
  \<^verbatim>\<open>dict(parser[name])\<close>: the options of the section, then those of the default section
  that the section lacks, each with the value \<^verbatim>\<open>get\<close> returns.
\<close>

definition section_dict :: "config \<Rightarrow> string \<Rightarrow> (string \<times> string) list" where
  "section_dict p name =
     (case map_of (sections p) name of
        None \<Rightarrow> []
      | Some items \<Rightarrow> items @ filter (\<lambda>(k, v). k \<notin> set (map fst items)) (defaults p))"

subsection \<open>The stack and its surroundings\<close>

text \<open>
  What \<^verbatim>\<open>serialize\<close> and \<^verbatim>\<open>deserialize\<close> use from outside the repository's sources here:
  the text that \<^verbatim>\<open>ConfigParser.write\<close> produces, what \<^verbatim>\<open>ConfigParser.read_string\<close> makes of
  a text, and the three queries of the \<^verbatim>\<open>ContainerRegistry\<close> by id.
\<close>

record stack_env =
  write_config :: "config \<Rightarrow> string"
  read_string :: "string \<Rightarrow> error + config"
  findDefinitionContainers :: "string \<Rightarrow> definition_container list"
  findInstanceContainers :: "string \<Rightarrow> instance_container list"
  findContainerStacks :: "string \<Rightarrow> container_stack list"

definition Version_stack :: int where
  "Version_stack = 2"

definition set_name :: "string \<Rightarrow> container_stack \<Rightarrow> container_stack" where
  "set_name n s = ContainerStack (stack_id s) n (stack_metadata s) (containers s) (next_stack s)"

definition set_id :: "string \<Rightarrow> container_stack \<Rightarrow> container_stack" where
  "set_id i s = ContainerStack i (stack_name s) (stack_metadata s) (containers s) (next_stack s)"

definition set_metadata :: "(string \<times> string) list \<Rightarrow> container_stack \<Rightarrow> container_stack" where
  "set_metadata md s = ContainerStack (stack_id s) (stack_name s) md (containers s) (next_stack s)"

text \<open>The loop over \<^verbatim>\<open>self._metadata.items()\<close> of \<^verbatim>\<open>serialize\<close>.\<close>

fun write_metadata :: "(string \<times> string) list \<Rightarrow> config \<Rightarrow> error + config" where
  "write_metadata [] p = Inr p"
| "write_metadata ((k, v) # rest) p =
     (case set_option ''metadata'' k v p of
        Inl e \<Rightarrow> Inl e
      | Inr p' \<Rightarrow> write_metadata rest p')"

text \<open>The loop that builds \<^verbatim>\<open>container_id_string\<close>.\<close>

fun container_id_string :: "container list \<Rightarrow> string" where
  "container_id_string [] = []"
| "container_id_string (c # cs) = getId c @ '','' @ container_id_string cs"

text \<open>The parser that \<^verbatim>\<open>serialize\<close> fills before it writes it out.\<close>

definition serialize_config :: "container_stack \<Rightarrow> error + config" where
  "serialize_config s =
     sum_bind (set_option ''general'' ''version'' (str_int Version_stack)
                 (set_section ''general'' new_ConfigParser)) (\<lambda>p1.
     sum_bind (set_option ''general'' ''name'' (stack_name s) p1) (\<lambda>p2.
     sum_bind (set_option ''general'' ''id'' (stack_id s) p2) (\<lambda>p3.
     sum_bind (write_metadata (stack_metadata s) (set_section ''metadata'' p3)) (\<lambda>p4.
     set_option ''general'' ''containers'' (container_id_string (containers s)) p4))))"

text \<open>\<^verbatim>\<open>ContainerStack.serialize\<close>.\<close>

definition serialize_stack :: "stack_env \<Rightarrow> container_stack \<Rightarrow> error + string" where
  "serialize_stack SE s =
     (case serialize_config s of Inl e \<Rightarrow> Inl e | Inr p \<Rightarrow> Inr (write_config SE p))"

text \<open>
  The three queries for one id in the order of \<^verbatim>\<open>deserialize\<close>: the first hit of the first
  query that finds something.
\<close>

definition find_container :: "stack_env \<Rightarrow> string \<Rightarrow> container option" where
  "find_container SE container_id =
     (case findDefinitionContainers SE container_id of
        d # ds \<Rightarrow> Some (DefinitionC d)
      | [] \<Rightarrow>
          (case findInstanceContainers SE container_id of
             i # is \<Rightarrow> Some (InstanceC i)
           | [] \<Rightarrow>
               (case findContainerStacks SE container_id of
                  c # cs \<Rightarrow> Some (StackC c)
                | [] \<Rightarrow> None)))"

text \<open>The loop over \<^verbatim>\<open>container_id_list\<close>: the outcome and the stack afterwards.\<close>

fun resolve_containers ::
  "stack_env \<Rightarrow> string list \<Rightarrow> container_stack \<Rightarrow> (error + unit) \<times> container_stack" where
  "resolve_containers SE [] s = (Inr (), s)"
| "resolve_containers SE (container_id # rest) s =
     (if container_id \<noteq> [] then
        (case find_container SE container_id of
           Some c \<Rightarrow> resolve_containers SE rest (set_containers (containers s @ [c]) s)
         | None \<Rightarrow>
             (Inl (Exception ''When trying to deserialize, we recieved an unknown ID for container''), s))
      else resolve_containers SE rest s)"

text \<open>
  \<^verbatim>\<open>ContainerStack.deserialize\<close>: the outcome and the stack afterwards. The values of
  \<^verbatim>\<open>name\<close> and \<^verbatim>\<open>id\<close> are read after the test that they are present, so the fallback of
  their reads is never taken.
\<close>

definition deserialize_stack ::
  "stack_env \<Rightarrow> container_stack \<Rightarrow> string \<Rightarrow> (error + unit) \<times> container_stack" where
  "deserialize_stack SE s serialized =
     (case read_string SE serialized of
        Inl e \<Rightarrow> (Inl e, s)
      | Inr p \<Rightarrow>
          if \<not> in_parser p ''general'' \<or> \<not> has_option p ''general'' ''version''
             \<or> \<not> has_option p ''general'' ''name'' \<or> \<not> has_option p ''general'' ''id''
          then (Inl InvalidContainerStackError, s)
          else
            (case getint p ''general'' ''version'' of
               Inl e \<Rightarrow> (Inl e, s)
             | Inr v \<Rightarrow>
                 if v \<noteq> Version_stack then (Inl IncorrectVersionError, s)
                 else
                   (let s1 = set_name (get_fallback p ''general'' ''name'' []) s;
                        s2 = set_id (get_fallback p ''general'' ''id'' []) s1;
                        s3 = (if in_parser p ''metadata''
                              then set_metadata (section_dict p ''metadata'') s2 else s2)
                    in resolve_containers SE
                         (split_comma (get_fallback p ''general'' ''containers'' [])) s3)))"

section \<open>The initial tables and the data of the examples\<close>

definition pd :: "definition_property_type \<Rightarrow> bool \<Rightarrow> bool \<Rightarrow> property_definition" where
  "pd t req ro = \<lparr>ptype = t, required = req, read_only = ro\<rparr>"

text \<open>\<^verbatim>\<open>SettingDefinition.__property_definitions\<close> as the class body sets it.\<close>

definition initial_property_definitions :: "(string \<times> property_definition) list" where
  "initial_property_definitions =
     [(''label'', pd TranslatedString True True),
      (''type'', pd String True True),
      (''icon'', pd String False True),
      (''unit'', pd String False True),
      (''description'', pd TranslatedString True True),
      (''warning_description'', pd TranslatedString False True),
      (''error_description'', pd TranslatedString False True),
      (''default_value'', pd Any False True),
      (''value'', pd Function False False),
      (''enabled'', pd Function False False),
      (''minimum_value'', pd Function False False),
      (''maximum_value'', pd Function False False),
      (''minimum_value_warning'', pd Function False False),
      (''maximum_value_warning'', pd Function False False),
      (''options'', pd Any False True),
      (''comments'', pd String False True)]"

text \<open>The names in \<^verbatim>\<open>SettingDefinition.__type_definitions\<close> as the class body sets it.\<close>

definition initial_type_definitions :: "string list" where
  "initial_type_definitions =
     [''int'', ''bool'', ''category'', ''str'', ''enum'', ''float'', ''polygon'', ''polygons'', ''vec3'']"

text \<open>\<^verbatim>\<open>str\<close> on the values that the examples pass to it.\<close>

fun example_str :: "pyvalue \<Rightarrow> string" where
  "example_str (PStr s) = s"
| "example_str (PInt i) = str_int i"
| "example_str PNone = ''None''"
| "example_str (PBool b) = (if b then ''True'' else ''False'')"
| "example_str v = []"

text \<open>
  An environment for examples: the initial tables, a parser that knows the listed texts,
  no files, and a function compiler that knows the listed expressions with the settings
  each uses.
\<close>

definition example_env :: "(string \<times> pyvalue) list \<Rightarrow> (string \<times> string list) list \<Rightarrow> env" where
  "example_env docs funs =
     \<lparr>property_definitions = initial_property_definitions,
      type_definitions = initial_type_definitions,
      py_str = example_str,
      json_loads = (\<lambda>text. case map_of docs text of
                              None \<Rightarrow> Inl (ExternalError ''JSONDecodeError'')
                            | Some d \<Rightarrow> Inr d),
      loadFile = (\<lambda>name. Inl (ExternalError ''FileNotFoundError'')),
      new_SettingFunction = (\<lambda>text. case map_of funs text of
                                       None \<Rightarrow> Inl (ExternalError ''SyntaxError'')
                                     | Some used \<Rightarrow> Inr (SettingFunction text used))\<rparr>"

text \<open>An instance container that answers from a table and \<^verbatim>\<open>None\<close> otherwise.\<close>

definition example_instance :: "string \<Rightarrow> (string \<times> pyvalue) list \<Rightarrow> instance_container" where
  "example_instance cid vals =
     \<lparr>ic_id = cid,
      ic_getValue = (\<lambda>k. case map_of vals k of None \<Rightarrow> Inr PNone | Some v \<Rightarrow> Inr v)\<rparr>"

text \<open>
  A definition document with two settings, of which \<open>b\<close> is enabled by an expression
  over \<open>a\<close> and a setting that does not exist, and has no default value.
\<close>

definition two_settings :: pyvalue where
  "two_settings =
     PDict [(''version'', PInt 2), (''name'', PStr ''Two''), (''metadata'', PDict []),
       (''settings'', PDict
          [(''a'', PDict [(''label'', PStr ''A''), (''type'', PStr ''int''),
                          (''description'', PStr ''first''), (''default_value'', PInt 1)]),
           (''b'', PDict [(''label'', PStr ''B''), (''type'', PStr ''bool''),
                          (''description'', PStr ''second''),
                          (''enabled'', PStr ''a and ghost'')])])]"

definition two_settings_env :: env where
  "two_settings_env = example_env [(''two'', two_settings)] [(''a and ghost'', [''a'', ''ghost''])]"

text \<open>A definition document that overrides the default value of its setting \<open>a\<close>.\<close>

definition overriding :: pyvalue where
  "overriding =
     PDict [(''version'', PInt 2), (''name'', PStr ''Over''), (''metadata'', PDict []),
       (''settings'', PDict
          [(''a'', PDict [(''label'', PStr ''A''), (''type'', PStr ''int''),
                          (''description'', PStr ''first''), (''default_value'', PInt 1)])]),
       (''overrides'', PDict [(''a'', PDict [(''default_value'', PInt 5)])])]"

definition overriding_env :: env where
  "overriding_env = example_env [(''over'', overriding)] []"

text \<open>A definition document of version 3 without a name.\<close>

definition nameless :: pyvalue where
  "nameless = PDict [(''version'', PInt 3)]"

text \<open>
  A text layer for examples: it renders nothing of a parser but a fixed text and reads
  every text as the given parser, so a parser written and read again is unchanged. The
  registry knows the listed instance containers by their ids and nothing else.
\<close>

definition example_stack_env :: "config \<Rightarrow> instance_container list \<Rightarrow> stack_env" where
  "example_stack_env p known =
     \<lparr>write_config = (\<lambda>q. ''text''),
      read_string = (\<lambda>text. Inr p),
      findDefinitionContainers = (\<lambda>cid. []),
      findInstanceContainers = (\<lambda>cid. filter (\<lambda>i. ic_id i = cid) known),
      findContainerStacks = (\<lambda>cid. [])\<rparr>"

text \<open>The parser of a stack \<open>s1\<close> written by version 2 (or another) of the format.\<close>

definition stack_config :: "string \<Rightarrow> string \<Rightarrow> config" where
  "stack_config version ids =
     \<lparr>defaults = [],
      sections = [(''general'', [(''version'', version), (''name'', ''Stack one''),
                                   (''id'', ''s1''), (''containers'', ids)]),
                  (''metadata'', [(''x'', ''1'')])]\<rparr>"

text \<open>The container that loading \<open>two_settings\<close> into a new container gives.\<close>

definition two_settings_loaded :: definition_container where
  "two_settings_loaded =
     \<lparr>dc_id = ''c'', dc_name = PStr ''Two'', dc_metadata = PDict [],
      definitions =
        [SettingDefinition ''a'' []
           [(''label'', PStr ''A''), (''type'', PStr ''int''),
            (''description'', PStr ''first''), (''default_value'', PInt 1)],
         SettingDefinition ''b'' []
           [(''label'', PStr ''B''), (''type'', PStr ''bool''),
            (''description'', PStr ''second''),
            (''enabled'', PFunction (SettingFunction ''a and ghost'' [''a'', ''ghost'']))]],
      i18n_catalog = None,
      relations =
        (\<lambda>p. [])
        ([Suc 0] := [\<lparr>owner = [Suc 0], target = [0], rtype = RequiresTarget, role = ''enabled''\<rparr>],
         [0] := [\<lparr>owner = [0], target = [Suc 0], rtype = RequiredByTarget, role = ''enabled''\<rparr>]),
      log = [UnknownDefinition ''b'' ''ghost'']\<rparr>"

text \<open>A definition document of version 3 with a name.\<close>

definition version_three :: pyvalue where
  "version_three = PDict [(''version'', PInt 3), (''name'', PStr ''Old'')]"

definition nameless_env :: env where
  "nameless_env = example_env [(''nameless'', nameless), (''old'', version_three)] []"

text \<open>Two instance containers, of which only the second knows \<open>k\<close>, and stacks of them.\<close>

definition container_A :: container where
  "container_A = InstanceC (example_instance ''A'' [])"

definition container_B :: container where
  "container_B = InstanceC (example_instance ''B'' [(''k'', PInt 5)])"

definition stack_C :: container_stack where
  "stack_C = ContainerStack ''n'' ''Next'' [] [InstanceC (example_instance ''C'' [(''j'', PInt 7)])] None"

definition stack_AB :: "container_stack option \<Rightarrow> container_stack" where
  "stack_AB nxt = ContainerStack ''s1'' ''Stack one'' [(''x'', ''1'')] [container_A, container_B] nxt"

text \<open>A stack whose first container has a comma in its id.\<close>

definition container_ab :: container where
  "container_ab = InstanceC (example_instance ''a,b'' [])"

definition stack_comma :: container_stack where
  "stack_comma = ContainerStack ''s1'' ''Stack one'' [(''x'', ''1'')] [container_ab, container_B] None"

text \<open>The registry of the examples and the surroundings of three stacks read back.\<close>

definition known_AB :: "instance_container list" where
  "known_AB = [example_instance ''A'' [], example_instance ''B'' [(''k'', PInt 5)]]"

definition env_AB :: stack_env where
  "env_AB = example_stack_env (stack_config ''2'' ''A,B,'') known_AB"

definition env_version_three :: stack_env where
  "env_version_three = example_stack_env (stack_config ''3'' ''A,B,'') known_AB"

definition env_ghost :: stack_env where
  "env_ghost = example_stack_env (stack_config ''2'' ''A,ghost,'') known_AB"

definition env_comma :: stack_env where
  "env_comma = example_stack_env (stack_config ''2'' ''a,b,B,'')
                 [example_instance ''a,b'' [], example_instance ''B'' [(''k'', PInt 5)]]"

text \<open>A setting document with all required properties, and one without a label.\<close>

definition complete_setting :: "(string \<times> pyvalue) list" where
  "complete_setting =
     [(''label'', PStr ''A''), (''type'', PStr ''int''), (''description'', PStr ''first''),
      (''default_value'', PInt 1)]"

definition setting_without_label :: "(string \<times> pyvalue) list" where
  "setting_without_label =
     [(''type'', PStr ''int''), (''description'', PStr ''first''), (''default_value'', PInt 1)]"

section \<open>The relation pass in closed form\<close>

text \<open>
  What one turn of the loop of \<^verbatim>\<open>_processFunction\<close> appends to the relation list of the
  definition at \<open>x\<close>, for the definition at \<open>p\<close>, the property \<open>property\<close> and the used
  setting \<open>setting\<close>, in a container whose definitions are \<open>forest\<close>.
\<close>

definition setting_edges ::
  "setting_definition list \<Rightarrow> path \<Rightarrow> path \<Rightarrow> string \<Rightarrow> string \<Rightarrow> string \<Rightarrow> setting_relation list" where
  "setting_edges forest x p k property setting =
     (case findDefinitions_children [] 0 forest setting of
        [] \<Rightarrow> []
      | (other, d) # others \<Rightarrow>
          (if p = x
           then [\<lparr>owner = p, target = other, rtype = RequiresTarget, role = property\<rparr>] else [])
          @ (if other = x
             then [\<lparr>owner = other, target = p, rtype = RequiredByTarget, role = property\<rparr>] else []))"

text \<open>What the same turn appends to the log.\<close>

definition setting_warnings ::
  "setting_definition list \<Rightarrow> path \<Rightarrow> string \<Rightarrow> string \<Rightarrow> string \<Rightarrow> log_entry list" where
  "setting_warnings forest p k property setting =
     (case findDefinitions_children [] 0 forest setting of
        [] \<Rightarrow> [UnknownDefinition k setting]
      | found # others \<Rightarrow> [])"

text \<open>
  What the pass appends in all, given what one turn appends: for one function property
  of a definition, for one definition, and for a list of definitions with their
  references.
\<close>

definition function_out ::
  "env \<Rightarrow> (path \<Rightarrow> string \<Rightarrow> string \<Rightarrow> string \<Rightarrow> 'a list) \<Rightarrow> path \<Rightarrow> setting_definition \<Rightarrow> string \<Rightarrow> 'a list" where
  "function_out E turn p d property =
     (case getattr_sd E d property of
        Inr (PFunction f) \<Rightarrow> concat (map (turn p (key d) property) (getUsedSettings f))
      | other \<Rightarrow> [])"

definition definition_out ::
  "env \<Rightarrow> (path \<Rightarrow> string \<Rightarrow> string \<Rightarrow> string \<Rightarrow> 'a list) \<Rightarrow> path \<times> setting_definition \<Rightarrow> 'a list" where
  "definition_out E turn ref =
     concat (map (function_out E turn (fst ref) (snd ref)) (getPropertyNames E Function))"

definition pass_out ::
  "env \<Rightarrow> (path \<Rightarrow> string \<Rightarrow> string \<Rightarrow> string \<Rightarrow> 'a list) \<Rightarrow> (path \<times> setting_definition) list \<Rightarrow> 'a list" where
  "pass_out E turn defs = concat (map (definition_out E turn) defs)"

section \<open>Properties of the container stack\<close>

subsection \<open>Layered lookup\<close>

lemma scan_all_none:
  "\<forall>x\<in>set cs. getValue_container E x k = Inr PNone \<Longrightarrow> scan_containers E cs k = Inr None"
  by (induction cs) auto

lemma scan_first:
  "\<forall>x\<in>set pre. getValue_container E x k = Inr PNone \<Longrightarrow> getValue_container E c k = Inr v
   \<Longrightarrow> v \<noteq> PNone \<Longrightarrow> scan_containers E (pre @ c # post) k = Inr (Some v)"
  by (induction pre) auto

lemma getValue_stack_unfold:
  "getValue_stack E s k =
     (case scan_containers E (containers s) k of
        Inl e \<Rightarrow> Inl e
      | Inr (Some v) \<Rightarrow> Inr v
      | Inr None \<Rightarrow> (case next_stack s of None \<Rightarrow> Inr PNone | Some nxt \<Rightarrow> getValue_stack E nxt k))"
  by (cases s; cases "next_stack s") (auto split: sum.splits option.splits)

text \<open>
  C1. \<^verbatim>\<open>stack.getValue(key)\<close> goes through the containers from index 0: when the containers
  before \<open>c\<close> all return \<^verbatim>\<open>None\<close> and \<open>c\<close> returns a value \<open>v\<close> that is not \<^verbatim>\<open>None\<close>, the
  result is \<open>v\<close>; when every container returns \<^verbatim>\<open>None\<close>, the result is that of the next
  stack where one is set, and \<^verbatim>\<open>None\<close> where none is set. (A container that raises ends
  the call with its exception; the three cases are those in which the containers return.)
\<close>

theorem getValue_layered_lookup:
  "(containers s = pre @ c # post \<and> (\<forall>x\<in>set pre. getValue_container E x k = Inr PNone)
      \<and> getValue_container E c k = Inr v \<and> v \<noteq> PNone
      \<longrightarrow> getValue_stack E s k = Inr v)
   \<and> ((\<forall>x\<in>set (containers s). getValue_container E x k = Inr PNone) \<and> next_stack s = Some nxt
      \<longrightarrow> getValue_stack E s k = getValue_stack E nxt k)
   \<and> ((\<forall>x\<in>set (containers s). getValue_container E x k = Inr PNone) \<and> next_stack s = None
      \<longrightarrow> getValue_stack E s k = Inr PNone)"
  by (simp add: getValue_stack_unfold scan_all_none scan_first)

lemma example_getValue:
  "getValue_container E container_A q = Inr PNone"
  "getValue_container E container_B ''k'' = Inr (PInt 5)"
  "getValue_container E container_B ''j'' = Inr PNone"
  by (simp_all add: container_A_def container_B_def example_instance_def)

theorem getValue_layered_lookup_witness:
  "getValue_stack two_settings_env (stack_AB None) ''k'' = Inr (PInt 5)
   \<and> getValue_stack two_settings_env (stack_AB (Some stack_C)) ''j''
       = getValue_stack two_settings_env stack_C ''j''
   \<and> getValue_stack two_settings_env (stack_AB None) ''j'' = Inr PNone"
proof -
  have c: "containers (stack_AB nxt) = [container_A] @ container_B # []" for nxt
    by (simp add: stack_AB_def)
  have n: "next_stack (stack_AB nxt) = nxt" for nxt
    by (simp add: stack_AB_def)
  have "getValue_stack two_settings_env (stack_AB None) ''k'' = Inr (PInt 5)"
    using getValue_layered_lookup
      [of "stack_AB None" "[container_A]" container_B "[]" two_settings_env "''k''" "PInt 5"]
    by (simp add: c example_getValue)
  moreover have "getValue_stack two_settings_env (stack_AB (Some stack_C)) ''j''
       = getValue_stack two_settings_env stack_C ''j''"
    using getValue_layered_lookup
      [of "stack_AB (Some stack_C)" _ _ _ two_settings_env "''j''" _ stack_C]
    by (simp add: c n example_getValue)
  moreover have "getValue_stack two_settings_env (stack_AB None) ''j'' = Inr PNone"
    using getValue_layered_lookup [of "stack_AB None" _ _ _ two_settings_env "''j''"]
    by (simp add: c n example_getValue)
  ultimately show ?thesis by simp
qed

subsection \<open>Indices\<close>

text \<open>
  C8. \<^verbatim>\<open>getContainer(-1)\<close>, \<^verbatim>\<open>replaceContainer(-1, x)\<close> and \<^verbatim>\<open>removeContainer(-1)\<close> raise
  \<^verbatim>\<open>IndexError\<close> and leave the stack as it was (\<^verbatim>\<open>getContainer\<close> assigns nothing at all);
  \<^verbatim>\<open>removeContainer\<close> with an index of at least the number of containers raises
  \<^verbatim>\<open>IndexError\<close> and leaves the stack as it was.
\<close>

theorem index_validation:
  "getContainer s (IntIndex (- 1)) = Inl IndexError
   \<and> replaceContainer s (IntIndex (- 1)) x = (Inl IndexError, s)
   \<and> removeContainer s (IntIndex (- 1)) = (Inl IndexError, s)
   \<and> (int (length (containers s)) \<le> i \<longrightarrow> removeContainer s (IntIndex i) = (Inl IndexError, s))"
  by (auto simp: getContainer_def replaceContainer_def removeContainer_def list_delitem_def
      list_position_def Let_def)

theorem index_validation_witness:
  "getContainer (stack_AB None) (IntIndex (- 1)) = Inl IndexError
   \<and> replaceContainer (stack_AB None) (IntIndex (- 1)) (Other container_A) = (Inl IndexError, stack_AB None)
   \<and> removeContainer (stack_AB None) (IntIndex (- 1)) = (Inl IndexError, stack_AB None)
   \<and> int (length (containers (stack_AB None))) \<le> 2
   \<and> removeContainer (stack_AB None) (IntIndex 2) = (Inl IndexError, stack_AB None)"
proof -
  have h: "int (length (containers (stack_AB None))) \<le> 2"
    by (simp add: stack_AB_def)
  show ?thesis
    using h index_validation [of "stack_AB None" "Other container_A" 2] by simp
qed

text \<open>
  C9. Of the negative indices only -1 is turned away: an index \<open>i\<close> below -1 that still
  lies in the list counts from the end in \<^verbatim>\<open>getContainer\<close>, \<^verbatim>\<open>replaceContainer\<close> and
  \<^verbatim>\<open>removeContainer\<close>, none of which raises; for a stack of at least two containers this
  holds of -2, which is the container before the last.
\<close>

theorem negative_index_from_end:
  assumes "- int (length (containers s)) \<le> i" and "i < - 1"
  shows "getContainer s (IntIndex i) = Inr (containers s ! nat (int (length (containers s)) + i))
     \<and> replaceContainer s (IntIndex i) (Other c)
         = (Inr (), set_containers ((containers s)[nat (int (length (containers s)) + i) := c]) s)
     \<and> removeContainer s (IntIndex i)
         = (Inr (), set_containers (take (nat (int (length (containers s)) + i)) (containers s)
                                    @ drop (Suc (nat (int (length (containers s)) + i))) (containers s)) s)
     \<and> (i = - 2 \<longrightarrow> nat (int (length (containers s)) + i) = length (containers s) - 2)"
  using assms
  by (auto simp: getContainer_def replaceContainer_def removeContainer_def list_getitem_def
      list_setitem_def list_delitem_def list_position_def Let_def)

theorem negative_index_from_end_witness:
  "- int (length (containers (stack_AB None))) \<le> - 2 \<and> (- 2 :: int) < - 1
   \<and> getContainer (stack_AB None) (IntIndex (- 2)) = Inr container_A
   \<and> fst (replaceContainer (stack_AB None) (IntIndex (- 2)) (Other container_B)) = Inr ()
   \<and> containers (snd (replaceContainer (stack_AB None) (IntIndex (- 2)) (Other container_B)))
       = [container_B, container_B]
   \<and> fst (removeContainer (stack_AB None) (IntIndex (- 2))) = Inr ()
   \<and> containers (snd (removeContainer (stack_AB None) (IntIndex (- 2)))) = [container_B]"
proof -
  have h: "- int (length (containers (stack_AB None))) \<le> - 2" "(- 2 :: int) < - 1"
    by (simp_all add: stack_AB_def)
  show ?thesis
    using h negative_index_from_end [OF h, of container_B]
    by (simp add: stack_AB_def set_containers_def)
qed

subsection \<open>Serialization of a stack\<close>

lemma split_comma_piece:
  "CHR '','' \<notin> set a \<Longrightarrow> split_comma (a @ CHR '','' # rest) = a # split_comma rest"
  by (induction a) (auto split: list.splits)

lemma str_int_Version: "str_int Version_stack = ''2''"
  by (simp add: str_int_def Version_stack_def str_nat.simps digit_char_def)

lemma py_int_2: "py_int ''2'' = Some 2"
  by (simp add: py_int_def strip_def is_space_def parse_nat_def digit_value_def)

lemma py_int_3: "py_int ''3'' = Some 3"
  by (simp add: py_int_def strip_def is_space_def parse_nat_def digit_value_def)

lemma serialize_config_value:
  "serialize_config (ContainerStack sid name [(''x'', ''1'')] cs nxt) =
     Inr \<lparr>defaults = [],
          sections = [(''general'', [(''version'', ''2''), (''name'', name), (''id'', sid),
                                    (''containers'', container_id_string cs)]),
                      (''metadata'', [(''x'', ''1'')])]\<rparr>"
  by (simp add: serialize_config_def sum_bind_def set_option_def set_section_def
      new_ConfigParser_def dict_set_def str_int_Version optionxform_def lower_char_def)

lemma resolve_two:
  assumes "a \<noteq> []" "b \<noteq> []" "find_container SE a = Some ra" "find_container SE b = Some rb"
  shows "resolve_containers SE [a, b, []] s = (Inr (), set_containers (containers s @ [ra, rb]) s)"
  using assms by (simp add: set_containers_def)

text \<open>
  C7, as amended. Let a stack hold the containers \<open>[c1, c2]\<close> and the metadata
  \<open>{"x": "1"}\<close>, let the ids of \<open>c1\<close> and \<open>c2\<close> be non-empty and free of commas, let the
  registry find for each of the two ids a container with that id, and let the text layer
  read the parser that \<^verbatim>\<open>serialize\<close> writes back as it was. Then \<^verbatim>\<open>serialize\<close> returns a
  text, and \<^verbatim>\<open>deserialize\<close> of that text into a new stack succeeds and gives a stack with
  the same id, name, metadata and sequence of container ids.
\<close>

theorem stack_round_trip:
  assumes s: "s = ContainerStack sid name [(''x'', ''1'')] [c1, c2] nxt"
    and cfg: "serialize_config s = Inr p"
    and text_layer: "read_string SE (write_config SE p) = Inr p"
    and id1: "getId c1 \<noteq> []" "CHR '','' \<notin> set (getId c1)"
    and id2: "getId c2 \<noteq> []" "CHR '','' \<notin> set (getId c2)"
    and r1: "find_container SE (getId c1) = Some r1" "getId r1 = getId c1"
    and r2: "find_container SE (getId c2) = Some r2" "getId r2 = getId c2"
  shows "\<exists>text s'. serialize_stack SE s = Inr text
           \<and> deserialize_stack SE (new_ContainerStack fresh_id) text = (Inr (), s')
           \<and> stack_id s' = sid \<and> stack_name s' = name
           \<and> stack_metadata s' = [(''x'', ''1'')]
           \<and> map getId (containers s') = [getId c1, getId c2]"
proof -
  have p: "p = \<lparr>defaults = [],
          sections = [(''general'', [(''version'', ''2''), (''name'', name), (''id'', sid),
                                    (''containers'', container_id_string [c1, c2])]),
                      (''metadata'', [(''x'', ''1'')])]\<rparr>"
    using cfg unfolding s serialize_config_value by simp
  have ids: "split_comma (container_id_string [c1, c2]) = [getId c1, getId c2, []]"
    using id1(2) id2(2) by (simp add: split_comma_piece)
  have ser: "serialize_stack SE s = Inr (write_config SE p)"
    by (simp add: serialize_stack_def cfg)
  have get: "section_get p ''general'' ''version'' = Some ''2''"
     "section_get p ''general'' ''name'' = Some name"
     "section_get p ''general'' ''id'' = Some sid"
     "section_get p ''general'' ''containers'' = Some (container_id_string [c1, c2])"
    by (simp_all add: p section_get_def optionxform_def lower_char_def)
  have inp: "in_parser p ''general''" "in_parser p ''metadata''"
    by (simp_all add: p in_parser_def has_section_def)
  have md: "section_dict p ''metadata'' = [(''x'', ''1'')]"
    by (simp add: p section_dict_def)
  have "deserialize_stack SE (new_ContainerStack fresh_id) (write_config SE p) =
        (Inr (), ContainerStack sid name [(''x'', ''1'')] [r1, r2] None)"
    unfolding deserialize_stack_def text_layer
    using resolve_two[OF id1(1) id2(1) r1(1) r2(1)]
    by (simp add: inp has_option_def get getint_def py_int_2 Version_stack_def get_fallback_def
        md ids Let_def set_name_def set_id_def set_metadata_def new_ContainerStack_def set_containers_def
        del: resolve_containers.simps split_comma.simps container_id_string.simps)
  then show ?thesis using ser r1(2) r2(2) by simp
qed

lemma find_container_AB:
  "find_container (example_stack_env p known_AB) ''A'' = Some container_A"
  "find_container (example_stack_env p known_AB) ''B'' = Some container_B"
  "find_container (example_stack_env p known_AB) ''ghost'' = None"
  by (simp_all add: find_container_def example_stack_env_def known_AB_def example_instance_def
      container_A_def container_B_def)

lemma getId_examples:
  "getId container_A = ''A''" "getId container_B = ''B''" "getId container_ab = ''a,b''"
  by (simp_all add: container_A_def container_B_def container_ab_def example_instance_def)

theorem stack_round_trip_witness:
  "\<exists>text s'. serialize_stack env_AB (stack_AB None) = Inr text
     \<and> deserialize_stack env_AB (new_ContainerStack ''fresh'') text = (Inr (), s')
     \<and> stack_id s' = ''s1'' \<and> stack_name s' = ''Stack one''
     \<and> stack_metadata s' = [(''x'', ''1'')]
     \<and> map getId (containers s') = [''A'', ''B'']"
proof -
  have cfg: "serialize_config (stack_AB None) = Inr (stack_config ''2'' ''A,B,'')"
    by (simp add: stack_AB_def serialize_config_value stack_config_def getId_examples)
  have text_layer:
    "read_string env_AB (write_config env_AB (stack_config ''2'' ''A,B,'')) = Inr (stack_config ''2'' ''A,B,'')"
    by (simp add: env_AB_def example_stack_env_def)
  have ids: "getId container_A \<noteq> []" "CHR '','' \<notin> set (getId container_A)"
    "getId container_B \<noteq> []" "CHR '','' \<notin> set (getId container_B)"
    by (simp_all add: getId_examples)
  have found: "find_container env_AB (getId container_A) = Some container_A"
    "find_container env_AB (getId container_B) = Some container_B"
    by (simp_all add: getId_examples env_AB_def find_container_AB)
  show ?thesis
    using stack_round_trip [OF stack_AB_def cfg text_layer ids(1) ids(2) ids(3) ids(4)
        found(1) refl found(2) refl, of "''fresh''"]
    by (simp add: getId_examples)
qed

text \<open>
  The claim C7 as it stands fails where an id holds a comma: for the stack
  \<open>stack_comma\<close>, whose containers both are found in the registry by their ids and whose
  parser is read back as written, \<^verbatim>\<open>deserialize\<close> of the serialized text raises.
\<close>

theorem stack_round_trip_counterexample:
  "serialize_stack env_comma stack_comma = Inr ''text''
   \<and> Inr (stack_config ''2'' ''a,b,B,'') = serialize_config stack_comma
   \<and> read_string env_comma ''text'' = Inr (stack_config ''2'' ''a,b,B,'')
   \<and> find_container env_comma (getId container_ab) = Some container_ab
   \<and> find_container env_comma (getId container_B) = Some container_B
   \<and> fst (deserialize_stack env_comma (new_ContainerStack ''fresh'') ''text'')
       = Inl (Exception ''When trying to deserialize, we recieved an unknown ID for container'')"
proof -
  have cfg: "serialize_config stack_comma = Inr (stack_config ''2'' ''a,b,B,'')"
    by (simp add: stack_comma_def serialize_config_value stack_config_def getId_examples)
  have found: "find_container env_comma ''a,b'' = Some container_ab"
    "find_container env_comma ''B'' = Some container_B"
    "find_container env_comma ''a'' = None"
    by (simp_all add: find_container_def env_comma_def example_stack_env_def example_instance_def
        container_ab_def container_B_def)
  have get: "section_get (stack_config ''2'' ''a,b,B,'') ''general'' ''version'' = Some ''2''"
     "section_get (stack_config ''2'' ''a,b,B,'') ''general'' ''name'' = Some ''Stack one''"
     "section_get (stack_config ''2'' ''a,b,B,'') ''general'' ''id'' = Some ''s1''"
     "section_get (stack_config ''2'' ''a,b,B,'') ''general'' ''containers'' = Some ''a,b,B,''"
    by (simp_all add: stack_config_def section_get_def optionxform_def lower_char_def)
  have inp: "in_parser (stack_config ''2'' ''a,b,B,'') ''general''"
    by (simp add: stack_config_def in_parser_def has_section_def)
  have rd: "read_string env_comma ''text'' = Inr (stack_config ''2'' ''a,b,B,'')"
    by (simp add: env_comma_def example_stack_env_def)
  have "fst (deserialize_stack env_comma (new_ContainerStack ''fresh'') ''text'')
       = Inl (Exception ''When trying to deserialize, we recieved an unknown ID for container'')"
    unfolding deserialize_stack_def rd
    by (simp add: inp has_option_def get getint_def py_int_2 Version_stack_def get_fallback_def
        Let_def found)
  moreover have "serialize_stack env_comma stack_comma = Inr ''text''"
    by (simp add: serialize_stack_def cfg env_comma_def example_stack_env_def)
  ultimately show ?thesis
    using cfg rd found by (simp add: getId_examples)
qed

text \<open>
  C10. \<^verbatim>\<open>deserialize\<close> is not atomic: for a document that passes the checks and whose list
  of container ids starts with an id the registry resolves, followed by one it does not,
  the call raises, and the stack afterwards has the name and the id of the document and
  the resolved container appended to its containers.
\<close>

theorem deserialize_not_atomic:
  assumes "read_string SE text = Inr p"
    and "in_parser p ''general''"
    and "section_get p ''general'' ''version'' = Some version"
    and "py_int version = Some Version_stack"
    and "section_get p ''general'' ''name'' = Some name"
    and "section_get p ''general'' ''id'' = Some sid"
    and "section_get p ''general'' ''containers'' = Some ids"
    and "split_comma ids = good # bad # rest"
    and "good \<noteq> []" and "find_container SE good = Some c"
    and "bad \<noteq> []" and "find_container SE bad = None"
  shows "fst (deserialize_stack SE s text)
           = Inl (Exception ''When trying to deserialize, we recieved an unknown ID for container'')
     \<and> stack_name (snd (deserialize_stack SE s text)) = name
     \<and> stack_id (snd (deserialize_stack SE s text)) = sid
     \<and> containers (snd (deserialize_stack SE s text)) = containers s @ [c]"
  using assms
  by (simp add: deserialize_stack_def has_option_def getint_def get_fallback_def Let_def
      set_name_def set_id_def set_metadata_def set_containers_def
      del: split_comma.simps)

theorem deserialize_not_atomic_witness:
  "fst (deserialize_stack env_ghost (new_ContainerStack ''fresh'') ''text'')
           = Inl (Exception ''When trying to deserialize, we recieved an unknown ID for container'')
     \<and> stack_name (snd (deserialize_stack env_ghost (new_ContainerStack ''fresh'') ''text'')) = ''Stack one''
     \<and> stack_id (snd (deserialize_stack env_ghost (new_ContainerStack ''fresh'') ''text'')) = ''s1''
     \<and> containers (snd (deserialize_stack env_ghost (new_ContainerStack ''fresh'') ''text''))
         = [container_A]"
proof -
  let ?p = "stack_config ''2'' ''A,ghost,''"
  have rd: "read_string env_ghost ''text'' = Inr ?p"
    by (simp add: env_ghost_def example_stack_env_def)
  have inp: "in_parser ?p ''general''"
    by (simp add: stack_config_def in_parser_def has_section_def)
  have get: "section_get ?p ''general'' ''version'' = Some ''2''"
     "section_get ?p ''general'' ''name'' = Some ''Stack one''"
     "section_get ?p ''general'' ''id'' = Some ''s1''"
     "section_get ?p ''general'' ''containers'' = Some ''A,ghost,''"
    by (simp_all add: stack_config_def section_get_def optionxform_def lower_char_def)
  have v: "py_int ''2'' = Some Version_stack"
    by (simp add: py_int_2 Version_stack_def)
  have ids: "split_comma ''A,ghost,'' = ''A'' # ''ghost'' # [[]]"
    by simp
  have found: "find_container env_ghost ''A'' = Some container_A"
    "find_container env_ghost ''ghost'' = None"
    by (simp_all add: env_ghost_def find_container_AB)
  have ne: "''A'' \<noteq> []" "''ghost'' \<noteq> []"
    by simp_all
  show ?thesis
    using deserialize_not_atomic [OF rd inp get(1) v get(2) get(3) get(4) ids ne(1) found(1)
        ne(2) found(2), of "new_ContainerStack ''fresh''"]
    by (simp add: new_ContainerStack_def)
qed

section \<open>Properties of definitions and their container\<close>

subsection \<open>Required properties\<close>

lemma is_required_is_property: "is_required E name \<Longrightarrow> name \<in> set (map fst (property_definitions E))"
  by (auto simp: is_required_def split: option.splits dest: map_of_SomeD intro: rev_image_eqI)

lemma dict_set_keys: "fst ` set (dict_set d k v) = insert k (fst ` set d)"
  unfolding dict_set_def by (induction d) auto

lemma deserialize_items_keys:
  "deserialize_items child E catalog items (chs, pv) = Inr (chs', pv')
   \<Longrightarrow> fst ` set pv' =
       fst ` set pv \<union> {n \<in> fst ` set items. n \<noteq> ''children'' \<and> is_property E n}"
proof (induction items arbitrary: chs pv)
  case Nil
  then show ?case by simp
next
  case (Cons item items)
  obtain name v where item: "item = (name, v)" by (cases item)
  show ?case
  proof (cases "name = ''children''")
    case True
    with Cons.prems obtain chs1 where "deserialize_items child E catalog items (chs1, pv) = Inr (chs', pv')"
      by (auto simp: item split: sum.splits)
    from Cons.IH [OF this] show ?thesis
      using True by (auto simp: item)
  next
    case False
    show ?thesis
    proof (cases "is_property E name")
      case no: False
      with False Cons.prems have "deserialize_items child E catalog items (chs, pv) = Inr (chs', pv')"
        by (simp add: item)
      from Cons.IH [OF this] show ?thesis
        using no by (auto simp: item)
    next
      case yes: True
      with False Cons.prems obtain x where
        "deserialize_items child E catalog items (chs, dict_set pv name x) = Inr (chs', pv')"
        by (auto simp: item split: sum.splits option.splits if_splits)
      from Cons.IH [OF this] show ?thesis
        using yes False by (auto simp: item dict_set_keys)
    qed
  qed
qed

lemma missing_required_empty:
  "missing_required E pv = [] \<longleftrightarrow> (\<forall>name. is_required E name \<longrightarrow> name \<in> fst ` set pv)"
proof
  assume e: "missing_required E pv = []"
  show "\<forall>name. is_required E name \<longrightarrow> name \<in> fst ` set pv"
  proof (intro allI impI)
    fix name assume r: "is_required E name"
    then have "name \<in> set (map fst (property_definitions E))"
      by (rule is_required_is_property)
    with r e show "name \<in> fst ` set pv"
      by (auto simp: missing_required_def filter_empty_conv)
  qed
next
  assume "\<forall>name. is_required E name \<longrightarrow> name \<in> fst ` set pv"
  then show "missing_required E pv = []"
    by (auto simp: missing_required_def filter_empty_conv)
qed

lemma missing_required_head:
  "missing_required E pv = name # rest \<Longrightarrow> is_required E name \<and> name \<notin> fst ` set pv"
proof -
  assume "missing_required E pv = name # rest"
  then have "name \<in> set (missing_required E pv)" by simp
  then show ?thesis by (simp add: missing_required_def)
qed

text \<open>
  C6. Once the loop over the keys of a setting document has ended without an exception,
  the properties stored are the keys of the document that are supported (other than
  \<^verbatim>\<open>children\<close>); \<^verbatim>\<open>_deserialize_dict\<close> then raises the error that names the key of the
  setting and a required property that is missing when there is such a property, and
  returns the definition when every required property is there.
\<close>

theorem required_property_enforcement:
  assumes "deserialize_items child E catalog items ([], []) = Inr (chs, pv)"
  shows "fst ` set pv = {n \<in> fst ` set items. n \<noteq> ''children'' \<and> is_property E n}
    \<and> ((\<exists>name. is_required E name \<and> name \<notin> fst ` set pv)
         \<longrightarrow> (\<exists>name. is_required E name \<and> name \<notin> fst ` set pv
                \<and> deserialize_dict child E catalog k items = Inl (MissingRequiredProperty k name)))
    \<and> ((\<forall>name. is_required E name \<longrightarrow> name \<in> fst ` set pv)
         \<longrightarrow> deserialize_dict child E catalog k items = Inr (SettingDefinition k chs pv))"
proof (intro conjI impI)
  show "fst ` set pv = {n \<in> fst ` set items. n \<noteq> ''children'' \<and> is_property E n}"
    using deserialize_items_keys [OF assms] by simp
next
  assume "\<exists>name. is_required E name \<and> name \<notin> fst ` set pv"
  then have "missing_required E pv \<noteq> []"
    using missing_required_empty by blast
  then obtain name rest where m: "missing_required E pv = name # rest"
    by (cases "missing_required E pv") auto
  have "deserialize_dict child E catalog k items = Inl (MissingRequiredProperty k name)"
    by (simp add: deserialize_dict_def assms m)
  then show "\<exists>name. is_required E name \<and> name \<notin> fst ` set pv
      \<and> deserialize_dict child E catalog k items = Inl (MissingRequiredProperty k name)"
    using missing_required_head [OF m] by blast
next
  assume "\<forall>name. is_required E name \<longrightarrow> name \<in> fst ` set pv"
  then have "missing_required E pv = []"
    using missing_required_empty by blast
  then show "deserialize_dict child E catalog k items = Inr (SettingDefinition k chs pv)"
    by (simp add: deserialize_dict_def assms)
qed

lemmas example_tables =
  two_settings_env_def example_env_def is_property_def is_required_def
  initial_property_definitions_def initial_type_definitions_def pd_def property_value_def
  dict_set_def

lemma example_is_required:
  "is_required two_settings_env name \<longleftrightarrow> name \<in> {''label'', ''type'', ''description''}"
  by (auto simp: example_tables split: if_splits)

theorem required_property_enforcement_witness:
  "deserialize_dict None two_settings_env None ''a'' complete_setting
     = Inr (SettingDefinition ''a'' [] complete_setting)
   \<and> (\<exists>name. is_required two_settings_env name
         \<and> name \<notin> fst ` set setting_without_label
         \<and> deserialize_dict None two_settings_env None ''a'' setting_without_label
             = Inl (MissingRequiredProperty ''a'' name))"
proof -
  have full: "deserialize_items None two_settings_env None complete_setting ([], [])
      = Inr ([], complete_setting)"
    by (simp add: complete_setting_def example_tables)
  have part: "deserialize_items None two_settings_env None setting_without_label ([], [])
      = Inr ([], setting_without_label)"
    by (simp add: setting_without_label_def example_tables)
  have all_there: "\<forall>name. is_required two_settings_env name \<longrightarrow> name \<in> fst ` set complete_setting"
    by (simp add: example_is_required complete_setting_def)
  have one_missing:
    "\<exists>name. is_required two_settings_env name \<and> name \<notin> fst ` set setting_without_label"
    by (rule exI [of _ "''label''"]) (simp add: example_is_required setting_without_label_def)
  show ?thesis
    using required_property_enforcement [OF full, of "''a''"] all_there
      required_property_enforcement [OF part, of "''a''"] one_missing
    by blast
qed

subsection \<open>Lookup in a definition container\<close>

lemma findDefinitions_filter:
  "findDefinitions_sd p d k = filter (\<lambda>(q, x). key x = k) (all_definitions_sd p d)"
  "findDefinitions_children p i ds k = filter (\<lambda>(q, x). key x = k) (all_definitions_children p i ds)"
  by (induction p d k and p i ds k rule: findDefinitions_sd_findDefinitions_children.induct) auto

lemma findDefinitions_dc_filter:
  "findDefinitions_dc c k = filter (\<lambda>(q, x). key x = k) (all_definitions c)"
  by (simp add: findDefinitions_dc_def all_definitions_def findDefinitions_filter)

lemmas example_load =
  two_settings_def sum_bind_def new_DefinitionContainer_def deserialize_dict_def
  example_tables missing_required_def getPropertyNames_def hasattr_sd_def getattr_sd_def
  processFunction_def relate_setting_def findDefinitions_dc_def add_relation_def
  preprocess_def apply_inherits_def apply_overrides_def verifyJson_def Version_dc_def

lemma two_settings_load:
  "dc_deserialize 0 two_settings_env (new_DefinitionContainer ''c'' None) ''two''
     = (Inr (), two_settings_loaded)"
  unfolding dc_deserialize_def two_settings_loaded_def
  by (simp add: example_load)

lemma two_settings_find:
  "findDefinitions_dc two_settings_loaded ''a'' = [([0], SettingDefinition ''a'' [] complete_setting)]"
  "findDefinitions_dc two_settings_loaded ''b'' =
     [([Suc 0], SettingDefinition ''b'' []
         [(''label'', PStr ''B''), (''type'', PStr ''bool''), (''description'', PStr ''second''),
          (''enabled'', PFunction (SettingFunction ''a and ghost'' [''a'', ''ghost'']))])]"
  "findDefinitions_dc two_settings_loaded ''ghost'' = []"
  by (simp_all add: findDefinitions_dc_def two_settings_loaded_def complete_setting_def)

text \<open>
  C3, as amended. \<^verbatim>\<open>getValue(key)\<close> of a definition container looks at the first
  definition of the forest, a definition before its children, whose key is \<open>key\<close>: it
  returns \<^verbatim>\<open>None\<close> when there is none, the \<^verbatim>\<open>default_value\<close> of that definition when it has
  one, and raises \<^verbatim>\<open>AttributeError\<close> when that definition has no \<^verbatim>\<open>default_value\<close>.
\<close>

theorem getValue_default_value:
  "findDefinitions_dc c k = filter (\<lambda>(q, x). key x = k) (all_definitions c)
   \<and> (findDefinitions_dc c k = [] \<longrightarrow> getValue_dc E c k = Inr PNone)
   \<and> (findDefinitions_dc c k = (p, d) # rest \<and> is_property E ''default_value''
        \<and> map_of (property_values d) ''default_value'' = Some v
        \<longrightarrow> getValue_dc E c k = Inr v)
   \<and> (findDefinitions_dc c k = (p, d) # rest \<and> ''default_value'' \<notin> fst ` set (property_values d)
        \<longrightarrow> getValue_dc E c k = Inl (AttributeError ''default_value''))"
  by (auto simp: findDefinitions_dc_filter getValue_dc_def getattr_sd_def is_property_def
      dest: map_of_SomeD intro: rev_image_eqI)

theorem getValue_default_value_witness:
  "getValue_dc two_settings_env two_settings_loaded ''ghost'' = Inr PNone
   \<and> getValue_dc two_settings_env two_settings_loaded ''a'' = Inr (PInt 1)
   \<and> getValue_dc two_settings_env two_settings_loaded ''b'' = Inl (AttributeError ''default_value'')"
proof -
  have p: "is_property two_settings_env ''default_value''"
    by (simp add: example_tables)
  have a: "map_of (property_values (SettingDefinition ''a'' [] complete_setting)) ''default_value''
      = Some (PInt 1)"
    by (simp add: complete_setting_def)
  show ?thesis
    using getValue_default_value
        [where c = two_settings_loaded and k = "''ghost''" and E = two_settings_env]
      getValue_default_value
        [where c = two_settings_loaded and k = "''a''" and E = two_settings_env
           and p = "[0]" and d = "SettingDefinition ''a'' [] complete_setting" and rest = "[]"
           and v = "PInt 1"]
      getValue_default_value
        [where c = two_settings_loaded and k = "''b''" and E = two_settings_env
           and p = "[Suc 0]" and rest = "[]"
           and d = "SettingDefinition ''b'' []
             [(''label'', PStr ''B''), (''type'', PStr ''bool''), (''description'', PStr ''second''),
              (''enabled'', PFunction (SettingFunction ''a and ghost'' [''a'', ''ghost'']))]"]
      p a
    by (simp add: two_settings_find)
qed

text \<open>
  The claim C3 as it stands fails: the container loaded from \<open>two_settings\<close> has a
  definition with the key \<open>b\<close>, that definition has no \<^verbatim>\<open>default_value\<close>, and
  \<^verbatim>\<open>getValue("b")\<close> raises.
\<close>

theorem getValue_default_value_counterexample:
  "dc_deserialize 0 two_settings_env (new_DefinitionContainer ''c'' None) ''two''
     = (Inr (), two_settings_loaded)
   \<and> findDefinitions_dc two_settings_loaded ''b'' \<noteq> []
   \<and> getValue_dc two_settings_env two_settings_loaded ''b'' = Inl (AttributeError ''default_value'')"
  by (simp add: two_settings_load two_settings_find getValue_dc_def getattr_sd_def)

subsection \<open>Overrides\<close>

lemma findInDict_loop_None: "findInDict_loop kvs k = Inr r \<Longrightarrow> r = PNone"
  by (induction kvs) (auto split: sum.splits)

lemma findInDict_result: "findInDict d k = Inr r \<Longrightarrow> r = d \<or> r = PNone"
  by (cases d) (auto split: sum.splits if_splits bool.splits dest: findInDict_loop_None)

text \<open>
  C2 is not what the code does. Loading \<open>overriding\<close>, whose override for the setting
  \<open>a\<close> sets \<^verbatim>\<open>default_value\<close> to 5, leaves the sub-document of \<open>a\<close> as it was and puts
  \<^verbatim>\<open>default_value\<close> beside \<open>a\<close> into the mapping of all settings, where the loop over the
  settings then takes the number 5 for a setting document and raises \<^verbatim>\<open>TypeError\<close>.
\<close>

theorem override_not_merged_into_setting:
  "preprocess 0 overriding_env ''over'' =
     Inr (PDict [(''version'', PInt 2), (''name'', PStr ''Over''), (''metadata'', PDict []),
       (''settings'', PDict
          [(''a'', PDict [(''label'', PStr ''A''), (''type'', PStr ''int''),
                          (''description'', PStr ''first''), (''default_value'', PInt 1)]),
           (''default_value'', PInt 5)]),
       (''overrides'', PDict [(''a'', PDict [(''default_value'', PInt 5)])])])
   \<and> fst (dc_deserialize 0 overriding_env (new_DefinitionContainer ''c'' None) ''over'')
       = Inl TypeError"
proof -
  have pre: "preprocess 0 overriding_env ''over'' =
     Inr (PDict [(''version'', PInt 2), (''name'', PStr ''Over''), (''metadata'', PDict []),
       (''settings'', PDict
          [(''a'', PDict [(''label'', PStr ''A''), (''type'', PStr ''int''),
                          (''description'', PStr ''first''), (''default_value'', PInt 1)]),
           (''default_value'', PInt 5)]),
       (''overrides'', PDict [(''a'', PDict [(''default_value'', PInt 5)])])])"
    by (simp add: preprocess_def overriding_env_def example_env_def overriding_def verifyJson_def
        Version_dc_def apply_inherits_def apply_overrides_def dict_set_def)
  have "fst (dc_deserialize 0 overriding_env (new_DefinitionContainer ''c'' None) ''over'')
       = Inl TypeError"
    unfolding dc_deserialize_def pre
    by (simp add: sum_bind_def new_DefinitionContainer_def deserialize_dict_def overriding_env_def
        example_env_def is_property_def is_required_def initial_property_definitions_def
        initial_type_definitions_def pd_def property_value_def dict_set_def missing_required_def)
  with pre show ?thesis by simp
qed

section \<open>Version mismatch\<close>

lemma py_getitem_contains: "py_getitem parsed k = Inr v \<Longrightarrow> py_contains parsed k = Inr True"
  by (cases parsed) (auto split: option.splits dest: map_of_SomeD intro: rev_image_eqI)

lemma verifyJson_version_differs:
  assumes "py_getitem parsed ''version'' = Inr v" and "py_ne_int v Version_dc"
  shows "\<exists>e. verifyJson parsed = Inl e"
    and "py_contains parsed ''name'' = Inr True \<Longrightarrow> verifyJson parsed = Inl IncorrectDefinitionVersionError"
  using assms py_getitem_contains [OF assms(1)]
  by (auto simp: verifyJson_def split: sum.splits bool.splits)

lemma dc_deserialize_verify_fails:
  "json_loads E text = Inr parsed \<Longrightarrow> verifyJson parsed = Inl e
   \<Longrightarrow> dc_deserialize n E c text = (Inl e, c)"
  by (simp add: dc_deserialize_def preprocess_def)

lemma deserialize_stack_version_differs:
  assumes "read_string SE ini = Inr p" and "getint p ''general'' ''version'' \<noteq> Inr Version_stack"
  shows "\<exists>e. deserialize_stack SE s ini = (Inl e, s)"
  using assms by (auto simp: deserialize_stack_def split: sum.splits)

text \<open>
  C4, as amended. A document whose version differs from the expected one makes
  \<^verbatim>\<open>deserialize\<close> fail and leaves the stack or the definition container as it was. The
  failure is the version-mismatch error when the document passes the checks that come
  before that of the version: for a stack a section \<^verbatim>\<open>general\<close> with \<^verbatim>\<open>version\<close>, \<^verbatim>\<open>name\<close>
  and \<^verbatim>\<open>id\<close> and a version that reads as an integer, for a definition container a \<^verbatim>\<open>name\<close>.
\<close>

theorem version_mismatch:
  "(read_string SE ini = Inr p \<and> getint p ''general'' ''version'' \<noteq> Inr Version_stack
      \<longrightarrow> (\<exists>e. deserialize_stack SE s ini = (Inl e, s)))
   \<and> (read_string SE ini = Inr p \<and> in_parser p ''general'' \<and> has_option p ''general'' ''name''
        \<and> has_option p ''general'' ''id'' \<and> getint p ''general'' ''version'' = Inr i
        \<and> i \<noteq> Version_stack
      \<longrightarrow> deserialize_stack SE s ini = (Inl IncorrectVersionError, s))
   \<and> (json_loads E doc = Inr parsed \<and> py_getitem parsed ''version'' = Inr v
        \<and> py_ne_int v Version_dc
      \<longrightarrow> (\<exists>e. dc_deserialize n E c doc = (Inl e, c)))
   \<and> (json_loads E doc = Inr parsed \<and> py_getitem parsed ''version'' = Inr v
        \<and> py_ne_int v Version_dc \<and> py_contains parsed ''name'' = Inr True
      \<longrightarrow> dc_deserialize n E c doc = (Inl IncorrectDefinitionVersionError, c))"
proof (intro conjI impI)
  assume "read_string SE ini = Inr p \<and> getint p ''general'' ''version'' \<noteq> Inr Version_stack"
  then show "\<exists>e. deserialize_stack SE s ini = (Inl e, s)"
    using deserialize_stack_version_differs by blast
next
  assume "read_string SE ini = Inr p \<and> in_parser p ''general'' \<and> has_option p ''general'' ''name''
        \<and> has_option p ''general'' ''id'' \<and> getint p ''general'' ''version'' = Inr i
        \<and> i \<noteq> Version_stack"
  then show "deserialize_stack SE s ini = (Inl IncorrectVersionError, s)"
    by (auto simp: deserialize_stack_def has_option_def getint_def split: option.splits)
next
  assume a: "json_loads E doc = Inr parsed \<and> py_getitem parsed ''version'' = Inr v
        \<and> py_ne_int v Version_dc"
  then obtain e where "verifyJson parsed = Inl e"
    using verifyJson_version_differs(1) by blast
  with a show "\<exists>e. dc_deserialize n E c doc = (Inl e, c)"
    using dc_deserialize_verify_fails by blast
next
  assume a: "json_loads E doc = Inr parsed \<and> py_getitem parsed ''version'' = Inr v
        \<and> py_ne_int v Version_dc \<and> py_contains parsed ''name'' = Inr True"
  then have "verifyJson parsed = Inl IncorrectDefinitionVersionError"
    using verifyJson_version_differs(2) by blast
  with a show "dc_deserialize n E c doc = (Inl IncorrectDefinitionVersionError, c)"
    using dc_deserialize_verify_fails by blast
qed

theorem version_mismatch_witness:
  "deserialize_stack env_version_three (stack_AB None) ''text'' = (Inl IncorrectVersionError, stack_AB None)
   \<and> dc_deserialize 0 nameless_env two_settings_loaded ''old''
       = (Inl IncorrectDefinitionVersionError, two_settings_loaded)
   \<and> (\<exists>e. dc_deserialize 0 nameless_env two_settings_loaded ''nameless'' = (Inl e, two_settings_loaded))"
proof -
  let ?p = "stack_config ''3'' ''A,B,''"
  have rd: "read_string env_version_three ''text'' = Inr ?p"
    by (simp add: env_version_three_def example_stack_env_def)
  have get: "section_get ?p ''general'' ''version'' = Some ''3''"
     "section_get ?p ''general'' ''name'' = Some ''Stack one''"
     "section_get ?p ''general'' ''id'' = Some ''s1''"
    by (simp_all add: stack_config_def section_get_def optionxform_def lower_char_def)
  have st: "in_parser ?p ''general''" "has_option ?p ''general'' ''name''"
    "has_option ?p ''general'' ''id''" "getint ?p ''general'' ''version'' = Inr 3"
    "(3::int) \<noteq> Version_stack" "getint ?p ''general'' ''version'' \<noteq> Inr Version_stack"
    by (simp_all add: has_option_def get getint_def py_int_3 Version_stack_def)
       (simp add: stack_config_def in_parser_def has_section_def)
  have old: "json_loads nameless_env ''old'' = Inr version_three"
    "py_getitem version_three ''version'' = Inr (PInt 3)"
    "py_ne_int (PInt 3) Version_dc" "py_contains version_three ''name'' = Inr True"
    by (simp_all add: nameless_env_def example_env_def version_three_def Version_dc_def)
  have nl: "json_loads nameless_env ''nameless'' = Inr nameless"
    "py_getitem nameless ''version'' = Inr (PInt 3)"
    by (simp_all add: nameless_env_def example_env_def nameless_def)
  show ?thesis
    using rd st old nl
      version_mismatch
        [where SE = env_version_three and ini = "''text''" and p = "?p" and s = "stack_AB None"
           and i = 3 and E = nameless_env and doc = "''old''" and parsed = version_three
           and v = "PInt 3" and n = 0 and c = two_settings_loaded]
      version_mismatch
        [where E = nameless_env and doc = "''nameless''" and parsed = nameless
           and v = "PInt 3" and n = 0 and c = two_settings_loaded]
    by simp
qed

text \<open>
  The claim C4 as it stands fails in the kind of the error: the document \<open>nameless\<close> has
  the version 3, and loading it raises the error for a missing name, not that for the
  version.
\<close>

theorem version_mismatch_counterexample:
  "json_loads nameless_env ''nameless'' = Inr nameless
   \<and> py_getitem nameless ''version'' = Inr (PInt 3)
   \<and> py_ne_int (PInt 3) Version_dc
   \<and> dc_deserialize 0 nameless_env (new_DefinitionContainer ''c'' None) ''nameless''
       = (Inl (InvalidDefinitionError ''Missing required property name''),
          new_DefinitionContainer ''c'' None)"
  by (simp add: nameless_env_def example_env_def nameless_def Version_dc_def dc_deserialize_def
      preprocess_def verifyJson_def)

section \<open>Relations after a load\<close>

subsection \<open>The pass appends what the closed form says\<close>

lemma relate_setting_definitions [simp]:
  "definitions (relate_setting p k property setting c) = definitions c"
  by (simp add: relate_setting_def add_relation_def split: list.splits)

lemma relate_setting_relations:
  "relations (relate_setting p k property setting c) x
     = relations c x @ setting_edges (definitions c) x p k property setting"
  by (simp add: relate_setting_def add_relation_def setting_edges_def findDefinitions_dc_def
      split: list.splits)

lemma relate_setting_log:
  "log (relate_setting p k property setting c)
     = log c @ setting_warnings (definitions c) p k property setting"
  by (simp add: relate_setting_def add_relation_def setting_warnings_def findDefinitions_dc_def
      split: list.splits)

text \<open>
  In the lemmas below \<open>obs\<close> is an observation of the container to which every turn of
  the loop appends \<open>turn\<close>: the relation list of one definition, or the log.
\<close>

lemma fold_relate:
  assumes "\<And>p k property setting c. definitions c = forest
       \<Longrightarrow> obs (relate_setting p k property setting c) = obs c @ turn p k property setting"
  shows "definitions c = forest \<Longrightarrow>
     definitions (fold (relate_setting p k property) used c) = forest
     \<and> obs (fold (relate_setting p k property) used c)
         = obs c @ concat (map (turn p k property) used)"
proof (induction used arbitrary: c)
  case Nil
  then show ?case by simp
next
  case (Cons s used)
  have "definitions (relate_setting p k property s c) = forest"
    using Cons.prems by simp
  from Cons.IH [OF this] show ?case
    using assms Cons.prems by simp
qed

lemma processFunction_out:
  assumes "\<And>p k property setting c. definitions c = forest
       \<Longrightarrow> obs (relate_setting p k property setting c) = obs c @ turn p k property setting" and "definitions c = forest"
    and "processFunction E p d property c = (Inr u, c')"
  shows "definitions c' = forest \<and> obs c' = obs c @ function_out E turn p d property"
proof -
  from assms(3) obtain f where f: "getattr_sd E d property = Inr (PFunction f)"
    and c': "c' = fold (relate_setting p (key d) property) (getUsedSettings f) c"
    by (auto simp: processFunction_def split: sum.splits pyvalue.splits)
  show ?thesis
    using fold_relate [OF assms(1) assms(2), of p "key d" property "getUsedSettings f"]
    by (simp add: c' function_out_def f)
qed

lemma function_out_no_attribute:
  "\<not> hasattr_sd E d property \<Longrightarrow> function_out E turn p d property = []"
  by (auto simp: hasattr_sd_def function_out_def split: sum.splits)

lemma updateRelations_properties_out:
  assumes "\<And>p k property setting c. definitions c = forest
       \<Longrightarrow> obs (relate_setting p k property setting c) = obs c @ turn p k property setting"
  shows "definitions c = forest \<Longrightarrow> updateRelations_properties E p d props c = (Inr u, c')
     \<Longrightarrow> definitions c' = forest
         \<and> obs c' = obs c @ concat (map (function_out E turn p d) props)"
proof (induction props arbitrary: c)
  case Nil
  then show ?case by simp
next
  case (Cons property props)
  show ?case
  proof (cases "hasattr_sd E d property")
    case False
    with Cons.prems have "updateRelations_properties E p d props c = (Inr u, c')"
      by simp
    from Cons.IH [OF Cons.prems(1) this] show ?thesis
      using False by (simp add: function_out_no_attribute)
  next
    case True
    with Cons.prems obtain c1 u1 where
      one: "processFunction E p d property c = (Inr u1, c1)"
      and rest: "updateRelations_properties E p d props c1 = (Inr u, c')"
      by (auto split: prod.splits sum.splits)
    from processFunction_out [OF assms Cons.prems(1) one]
    have c1: "definitions c1 = forest" "obs c1 = obs c @ function_out E turn p d property"
      by simp_all
    from Cons.IH [OF c1(1) rest] show ?thesis
      by (simp add: c1)
  qed
qed

lemma updateRelations_out:
  assumes "\<And>p k property setting c. definitions c = forest
       \<Longrightarrow> obs (relate_setting p k property setting c) = obs c @ turn p k property setting"
  shows "definitions c = forest \<Longrightarrow> updateRelations E p d c = (Inr u, c')
     \<Longrightarrow> definitions c' = forest
         \<and> obs c' = obs c @ pass_out E turn (all_definitions_sd p d)"
    and "definitions c = forest \<Longrightarrow> updateRelations_children E p i ds c = (Inr u, c')
     \<Longrightarrow> definitions c' = forest
         \<and> obs c' = obs c @ pass_out E turn (all_definitions_children p i ds)"
proof (induction E p d c and E p i ds c arbitrary: u c' and u c'
    rule: updateRelations_updateRelations_children.induct)
  case (1 E p dkey chs pv c)
  let ?d = "SettingDefinition dkey chs pv"
  from "1.prems" obtain c1 u1 where
    props: "updateRelations_properties E p ?d (getPropertyNames E Function) c = (Inr u1, c1)"
    and rest: "updateRelations_children E p 0 chs c1 = (Inr u, c')"
    by (auto split: prod.splits sum.splits)
  from updateRelations_properties_out [OF assms "1.prems"(1) props]
  have c1: "definitions c1 = forest" "obs c1 = obs c @ definition_out E turn (p, ?d)"
    by (simp_all add: definition_out_def)
  from "1.IH" [OF props [symmetric] refl c1(1) rest] show ?case
    by (simp add: c1 pass_out_def)
next
  case (2 E p i c)
  then show ?case by (simp add: pass_out_def)
next
  case (3 E p i child rest c)
  from "3.prems" obtain c1 u1 where
    one: "updateRelations E (p @ [i]) child c = (Inr u1, c1)"
    and more: "updateRelations_children E p (Suc i) rest c1 = (Inr u, c')"
    by (auto split: prod.splits sum.splits)
  from "3.IH"(1) [OF "3.prems"(1) one]
  have c1: "definitions c1 = forest"
    "obs c1 = obs c @ pass_out E turn (all_definitions_sd (p @ [i]) child)"
    by simp_all
  from "3.IH"(2) [OF one [symmetric] refl c1(1) more] show ?case
    by (simp add: c1 pass_out_def)
qed

lemma load_settings_keeps:
  "load_settings n E c items = (r, c') \<Longrightarrow> relations c' = relations c \<and> log c' = log c"
  by (induction items arbitrary: c) (auto split: sum.splits)

lemma dc_deserialize_pass:
  assumes "dc_deserialize n E c0 doc = (Inr u, c)"
  shows "\<exists>c1. relations c1 = relations c0 \<and> log c1 = log c0
     \<and> updateRelations_children E [] 0 (definitions c1) c1 = (Inr u, c)"
proof -
  from assms obtain parsed name md items r c1 where
    load: "load_settings n E (c0\<lparr>dc_name := name, dc_metadata := md\<rparr>) items = (r, c1)"
    and pass: "(case (r, c1) of (Inl e, c') \<Rightarrow> (Inl e, c')
          | (Inr u, c') \<Rightarrow> updateRelations_children E [] 0 (definitions c') c') = (Inr u, c)"
    by (auto simp: dc_deserialize_def split: sum.splits bool.splits prod.splits)
  from pass have "updateRelations_children E [] 0 (definitions c1) c1 = (Inr u, c)"
    by (auto split: sum.splits)
  moreover have "relations c1 = relations c0 \<and> log c1 = log c0"
    using load_settings_keeps [OF load] by simp
  ultimately show ?thesis by blast
qed

text \<open>After a load into a container, the relation lists and the log in closed form.\<close>

lemma loaded_relations:
  assumes "dc_deserialize n E c0 doc = (Inr u, c)"
  shows "relations c x
      = relations c0 x @ pass_out E (setting_edges (definitions c) x) (all_definitions c)"
    and "log c = log c0 @ pass_out E (setting_warnings (definitions c)) (all_definitions c)"
proof -
  from dc_deserialize_pass [OF assms] obtain c1 where
    c1: "relations c1 = relations c0" "log c1 = log c0"
    and pass: "updateRelations_children E [] 0 (definitions c1) c1 = (Inr u, c)"
    by blast
  have rel: "definitions c = definitions c1
      \<and> relations c x = relations c1 x
          @ pass_out E (setting_edges (definitions c1) x) (all_definitions_children [] 0 (definitions c1))"
    by (rule updateRelations_out(2)
          [where obs = "\<lambda>c. relations c x" and forest = "definitions c1", OF _ refl pass])
       (simp add: relate_setting_relations)
  have lg: "definitions c = definitions c1
      \<and> log c = log c1
          @ pass_out E (setting_warnings (definitions c1)) (all_definitions_children [] 0 (definitions c1))"
    by (rule updateRelations_out(2) [where obs = log and forest = "definitions c1", OF _ refl pass])
       (simp add: relate_setting_log)
  show "relations c x
      = relations c0 x @ pass_out E (setting_edges (definitions c) x) (all_definitions c)"
    using rel by (simp add: c1 all_definitions_def)
  show "log c = log c0 @ pass_out E (setting_warnings (definitions c)) (all_definitions c)"
    using lg by (simp add: c1 all_definitions_def)
qed

subsection \<open>Every definition has its own reference\<close>

lemma references_below:
  "q \<in> fst ` set (all_definitions_sd p d) \<Longrightarrow> \<exists>r. q = p @ r"
  "q \<in> fst ` set (all_definitions_children p i ds) \<Longrightarrow> \<exists>j r. q = p @ j # r \<and> i \<le> j"
proof (induction p d and p i ds rule: all_definitions_sd_all_definitions_children.induct)
  case (1 p dkey chs pv)
  from "1.prems" consider "q = p" | "q \<in> fst ` set (all_definitions_children p 0 chs)"
    by auto
  then show ?case
  proof cases
    case 1
    then show ?thesis by simp
  next
    case 2
    from "1.IH" [OF this] obtain j r where "q = p @ j # r" by blast
    then show ?thesis by blast
  qed
next
  case (2 p i)
  then show ?case by simp
next
  case (3 p i c cs)
  from "3.prems" consider "q \<in> fst ` set (all_definitions_sd (p @ [i]) c)"
    | "q \<in> fst ` set (all_definitions_children p (Suc i) cs)"
    by auto
  then show ?case
  proof cases
    case 1
    from "3.IH"(1) [OF this] obtain r where "q = (p @ [i]) @ r" by blast
    then have "q = p @ i # r \<and> i \<le> i" by simp
    then show ?thesis by blast
  next
    case 2
    from "3.IH"(2) [OF this] obtain j r where "q = p @ j # r" "Suc i \<le> j" by blast
    then have "q = p @ j # r \<and> i \<le> j" by simp
    then show ?thesis by blast
  qed
qed

lemma references_distinct:
  "distinct (map fst (all_definitions_sd p d))"
  "distinct (map fst (all_definitions_children p i ds))"
proof (induction p d and p i ds rule: all_definitions_sd_all_definitions_children.induct)
  case (1 p dkey chs pv)
  have "p \<notin> fst ` set (all_definitions_children p 0 chs)"
    using references_below(2) [of p p 0 chs] by auto
  with 1 show ?case by simp
next
  case (2 p i)
  then show ?case by simp
next
  case (3 p i c cs)
  have "fst ` set (all_definitions_sd (p @ [i]) c) \<inter> fst ` set (all_definitions_children p (Suc i) cs) = {}"
  proof (rule ccontr)
    assume "\<not> ?thesis"
    then obtain q where a: "q \<in> fst ` set (all_definitions_sd (p @ [i]) c)"
      and b: "q \<in> fst ` set (all_definitions_children p (Suc i) cs)"
      by blast
    from references_below(1) [OF a] obtain r where "q = (p @ [i]) @ r" by blast
    moreover from references_below(2) [OF b] obtain j r' where "q = p @ j # r'" "Suc i \<le> j" by blast
    ultimately show False by simp
  qed
  with 3 show ?case by simp
qed

lemma all_definitions_distinct: "distinct (map fst (all_definitions c))"
  by (simp add: all_definitions_def references_distinct)

lemma same_reference:
  "(p, d) \<in> set (all_definitions c) \<Longrightarrow> (p, d') \<in> set (all_definitions c) \<Longrightarrow> d = d'"
  using all_definitions_distinct [of c] by (rule eq_key_imp_eq_value)

subsection \<open>Counting\<close>

lemma concat_single:
  "distinct xs \<Longrightarrow> a \<in> set xs \<Longrightarrow> (\<And>y. y \<in> set xs \<Longrightarrow> y \<noteq> a \<Longrightarrow> h y = [])
   \<Longrightarrow> concat (map h xs) = h a"
proof (induction xs)
  case Nil
  then show ?case by simp
next
  case (Cons x xs)
  show ?case
  proof (cases "x = a")
    case True
    then have "a \<notin> set xs" using Cons.prems(1) by simp
    then have "concat (map h xs) = []"
      using Cons.prems(3) by auto
    with True show ?thesis by simp
  next
    case False
    then have "h x = []" using Cons.prems(3) by simp
    moreover have "concat (map h xs) = h a"
      using Cons False by auto
    ultimately show ?thesis by simp
  qed
qed


lemma concat_one:
  "distinct xs \<Longrightarrow> a \<in> set xs \<Longrightarrow> concat (map (\<lambda>s. if s = a then [e] else []) xs) = [e]"
  by (rule trans [OF concat_single [where a = a]]) simp_all

subsection \<open>What the pass gives for one property of one definition\<close>

lemma function_out_empty:
  "(\<And>k s. turn p k property s = []) \<Longrightarrow> function_out E turn p d property = []"
  by (simp add: function_out_def split: sum.splits pyvalue.splits)

lemma pass_out_single:
  assumes defs: "distinct (map fst defs)" "(pB, B) \<in> set defs"
    and names: "distinct (getPropertyNames E Function)" "prop \<in> set (getPropertyNames E Function)"
    and f: "getattr_sd E B prop = Inr (PFunction f)"
    and other: "\<And>p k property s. p \<noteq> pB \<or> property \<noteq> prop \<Longrightarrow> turn p k property s = []"
  shows "pass_out E turn defs = concat (map (turn pB (key B) prop) (getUsedSettings f))"
proof -
  have "definition_out E turn ref = []" if ref: "ref \<in> set defs" "ref \<noteq> (pB, B)" for ref
  proof -
    have "fst ref \<noteq> pB"
    proof
      assume "fst ref = pB"
      with ref(1) have "(pB, snd ref) \<in> set defs" by (metis prod.collapse)
      with defs have "B = snd ref" by (rule eq_key_imp_eq_value)
      with \<open>fst ref = pB\<close> ref(2) show False by (metis prod.collapse)
    qed
    then have "function_out E turn (fst ref) (snd ref) property = []" for property
      by (simp add: function_out_empty other)
    then show ?thesis by (simp add: definition_out_def)
  qed
  moreover have "distinct defs"
    using defs(1) by (simp add: distinct_map)
  ultimately have "pass_out E turn defs = definition_out E turn (pB, B)"
    unfolding pass_out_def using defs(2) by (intro concat_single) auto
  also have "\<dots> = function_out E turn pB B prop"
  proof -
    have "function_out E turn pB B property = []" if "property \<noteq> prop" for property
      using that by (simp add: function_out_empty other)
    then show ?thesis
      unfolding definition_out_def fst_conv snd_conv
      using names by (intro concat_single) auto
  qed
  also have "\<dots> = concat (map (turn pB (key B) prop) (getUsedSettings f))"
    by (simp add: function_out_def f)
  finally show ?thesis .
qed

lemma filter_pass_out:
  "filter P (pass_out E turn defs)
     = pass_out E (\<lambda>p k property s. filter P (turn p k property s)) defs"
proof -
  have one: "filter P (function_out E turn p d property)
      = function_out E (\<lambda>p k property s. filter P (turn p k property s)) p d property"
    for p d property
    by (simp add: function_out_def filter_concat comp_def split: sum.splits pyvalue.splits)
  have "filter P (definition_out E turn ref)
      = definition_out E (\<lambda>p k property s. filter P (turn p k property s)) ref" for ref
    by (simp add: definition_out_def filter_concat comp_def one)
  then show ?thesis
    by (simp add: pass_out_def filter_concat comp_def)
qed

lemma pass_out_member:
  assumes "(p, d) \<in> set defs" and "property \<in> set (getPropertyNames E Function)"
    and "getattr_sd E d property = Inr (PFunction f)" and "s \<in> set (getUsedSettings f)"
    and "x \<in> set (turn p (key d) property s)"
  shows "x \<in> set (pass_out E turn defs)"
proof -
  have "x \<in> set (function_out E turn p d property)"
    using assms(3-5) by (auto simp: function_out_def)
  with assms(2) have "x \<in> set (definition_out E turn (p, d))"
    by (auto simp: definition_out_def)
  with assms(1) show ?thesis
    by (auto simp: pass_out_def)
qed

subsection \<open>The edges of one turn, by kind\<close>

lemma required_by_edges:
  "filter (\<lambda>r. rtype r = RequiredByTarget \<and> target r = t \<and> role r = prop)
     (setting_edges (definitions c) x p k property s)
   = (if p = t \<and> property = prop \<and> (\<exists>d others. findDefinitions_dc c s = (x, d) # others)
      then [\<lparr>owner = x, target = t, rtype = RequiredByTarget, role = prop\<rparr>] else [])"
  by (auto simp: setting_edges_def findDefinitions_dc_def split: list.splits)

lemma requires_edges:
  "filter (\<lambda>r. rtype r = RequiresTarget \<and> target r = t \<and> role r = prop)
     (setting_edges (definitions c) x p k property s)
   = (if p = x \<and> property = prop \<and> (\<exists>d others. findDefinitions_dc c s = (t, d) # others)
      then [\<lparr>owner = x, target = t, rtype = RequiresTarget, role = prop\<rparr>] else [])"
  by (auto simp: setting_edges_def findDefinitions_dc_def split: list.splits)

lemma requires_any_edges:
  "filter (\<lambda>r. rtype r = RequiresTarget \<and> role r = prop)
     (setting_edges (definitions c) x p k property s)
   = (if p = x \<and> property = prop \<and> findDefinitions_dc c s \<noteq> []
      then [\<lparr>owner = x, target = fst (hd (findDefinitions_dc c s)),
              rtype = RequiresTarget, role = prop\<rparr>] else [])"
  by (auto simp: setting_edges_def findDefinitions_dc_def split: list.splits)

lemma first_match_key:
  assumes "findDefinitions_dc c (key A) = (pA, A) # rest"
  shows "(\<exists>d others. findDefinitions_dc c s = (pA, d) # others) \<longleftrightarrow> s = key A"
proof
  assume "\<exists>d others. findDefinitions_dc c s = (pA, d) # others"
  then obtain d others where s: "findDefinitions_dc c s = (pA, d) # others" by blast
  have "(pA, d) \<in> set (findDefinitions_dc c s)" by (simp add: s)
  then have d: "(pA, d) \<in> set (all_definitions c)" "key d = s"
    by (simp_all add: findDefinitions_dc_filter)
  have "(pA, A) \<in> set (findDefinitions_dc c (key A))" by (simp add: assms)
  then have "(pA, A) \<in> set (all_definitions c)"
    by (simp add: findDefinitions_dc_filter)
  with d(1) have "d = A" by (rule same_reference)
  with d(2) show "s = key A" by simp
next
  assume "s = key A"
  with assms show "\<exists>d others. findDefinitions_dc c s = (pA, d) # others" by blast
qed

lemma targets_of_resolved:
  "map target (concat (map (\<lambda>s. if Q s then [\<lparr>owner = x, target = t s, rtype = y, role = z\<rparr>] else []) used))
     = map t (filter Q used)"
  by (induction used) simp_all

lemma function_property_names:
  "distinct (map fst (property_definitions E)) \<Longrightarrow> distinct (getPropertyNames E t)"
  by (simp add: getPropertyNames_def)

text \<open>
  C5. A new definition container has loaded a document, and its setting \<open>B\<close> has an
  \<^verbatim>\<open>enabled\<close> expression \<open>f\<close>, \<^verbatim>\<open>enabled\<close> being a function property of a table without
  repeated names, and \<open>f\<close> naming each setting it uses once. If \<open>f\<close> uses the key of
  \<open>A\<close>, which is the first definition of that key, then the relation list of \<open>A\<close> has
  exactly one \<^verbatim>\<open>RequiredByTarget\<close> edge with target \<open>B\<close> and role \<^verbatim>\<open>enabled\<close>, and the relation
  list of \<open>B\<close> has exactly one \<^verbatim>\<open>RequiresTarget\<close> edge with target \<open>A\<close> and role \<^verbatim>\<open>enabled\<close>. A
  used key that no definition has is in the log with the key of \<open>B\<close>, and the
  \<^verbatim>\<open>RequiresTarget\<close> edges of \<open>B\<close> with role \<^verbatim>\<open>enabled\<close> lead, in order, to the first
  definitions of the used keys that some definition has, and to nothing else.
\<close>

theorem relation_pairing:
  assumes load: "dc_deserialize n E (new_DefinitionContainer cid catalog) doc = (Inr (), c)"
    and table: "distinct (map fst (property_definitions E))"
      "''enabled'' \<in> set (getPropertyNames E Function)"
    and B: "(pB, B) \<in> set (all_definitions c)" "getattr_sd E B ''enabled'' = Inr (PFunction f)"
    and used: "distinct (getUsedSettings f)"
  shows "(key A \<in> set (getUsedSettings f) \<and> findDefinitions_dc c (key A) = (pA, A) # rest \<longrightarrow>
            filter (\<lambda>r. rtype r = RequiredByTarget \<and> target r = pB \<and> role r = ''enabled'')
              (relations c pA)
              = [\<lparr>owner = pA, target = pB, rtype = RequiredByTarget, role = ''enabled''\<rparr>]
          \<and> filter (\<lambda>r. rtype r = RequiresTarget \<and> target r = pA \<and> role r = ''enabled'')
              (relations c pB)
              = [\<lparr>owner = pB, target = pA, rtype = RequiresTarget, role = ''enabled''\<rparr>])
       \<and> (s \<in> set (getUsedSettings f) \<and> findDefinitions_dc c s = []
            \<longrightarrow> UnknownDefinition (key B) s \<in> set (log c))
       \<and> map target (filter (\<lambda>r. rtype r = RequiresTarget \<and> role r = ''enabled'') (relations c pB))
           = map (\<lambda>s. fst (hd (findDefinitions_dc c s)))
               (filter (\<lambda>s. findDefinitions_dc c s \<noteq> []) (getUsedSettings f))"
proof -
  let ?defs = "all_definitions c"
  let ?used = "getUsedSettings f"
  have rel: "relations c x = pass_out E (setting_edges (definitions c) x) ?defs" for x
    using loaded_relations(1) [OF load, of x] by (simp add: new_DefinitionContainer_def)
  have lg: "log c = pass_out E (setting_warnings (definitions c)) ?defs"
    using loaded_relations(2) [OF load] by (simp add: new_DefinitionContainer_def)
  note names = function_property_names [OF table(1), of Function]
  note single = pass_out_single [OF all_definitions_distinct B(1) names table(2) B(2)]
  have pair: "filter (\<lambda>r. rtype r = RequiredByTarget \<and> target r = pB \<and> role r = ''enabled'')
              (relations c pA)
              = [\<lparr>owner = pA, target = pB, rtype = RequiredByTarget, role = ''enabled''\<rparr>]
          \<and> filter (\<lambda>r. rtype r = RequiresTarget \<and> target r = pA \<and> role r = ''enabled'')
              (relations c pB)
              = [\<lparr>owner = pB, target = pA, rtype = RequiresTarget, role = ''enabled''\<rparr>]"
    if A: "key A \<in> set ?used" "findDefinitions_dc c (key A) = (pA, A) # rest"
  proof
    show "filter (\<lambda>r. rtype r = RequiredByTarget \<and> target r = pB \<and> role r = ''enabled'')
              (relations c pA)
              = [\<lparr>owner = pA, target = pB, rtype = RequiredByTarget, role = ''enabled''\<rparr>]"
      unfolding rel filter_pass_out required_by_edges first_match_key [OF A(2)]
      by (subst single) (auto simp: concat_one [OF used A(1)])
    show "filter (\<lambda>r. rtype r = RequiresTarget \<and> target r = pA \<and> role r = ''enabled'')
              (relations c pB)
              = [\<lparr>owner = pB, target = pA, rtype = RequiresTarget, role = ''enabled''\<rparr>]"
      unfolding rel filter_pass_out requires_edges first_match_key [OF A(2)]
      by (subst single) (auto simp: concat_one [OF used A(1)])
  qed
  have warn: "UnknownDefinition (key B) s \<in> set (log c)"
    if s: "s \<in> set ?used" "findDefinitions_dc c s = []"
    unfolding lg
    by (rule pass_out_member [OF B(1) table(2) B(2) s(1)])
       (use s(2) in \<open>simp add: setting_warnings_def findDefinitions_dc_def\<close>)
  have targets: "map target (filter (\<lambda>r. rtype r = RequiresTarget \<and> role r = ''enabled'') (relations c pB))
           = map (\<lambda>s. fst (hd (findDefinitions_dc c s)))
               (filter (\<lambda>s. findDefinitions_dc c s \<noteq> []) ?used)"
    unfolding rel filter_pass_out requires_any_edges
    by (subst single) (auto simp: targets_of_resolved)
  from pair warn targets show ?thesis by blast
qed

theorem relation_pairing_witness:
  "dc_deserialize 0 two_settings_env (new_DefinitionContainer ''c'' None) ''two''
     = (Inr (), two_settings_loaded)
   \<and> filter (\<lambda>r. rtype r = RequiredByTarget \<and> target r = [Suc 0] \<and> role r = ''enabled'')
       (relations two_settings_loaded [0])
       = [\<lparr>owner = [0], target = [Suc 0], rtype = RequiredByTarget, role = ''enabled''\<rparr>]
   \<and> filter (\<lambda>r. rtype r = RequiresTarget \<and> target r = [0] \<and> role r = ''enabled'')
       (relations two_settings_loaded [Suc 0])
       = [\<lparr>owner = [Suc 0], target = [0], rtype = RequiresTarget, role = ''enabled''\<rparr>]
   \<and> UnknownDefinition ''b'' ''ghost'' \<in> set (log two_settings_loaded)
   \<and> map target (filter (\<lambda>r. rtype r = RequiresTarget \<and> role r = ''enabled'')
       (relations two_settings_loaded [Suc 0])) = [[0]]"
proof -
  let ?f = "SettingFunction ''a and ghost'' [''a'', ''ghost'']"
  let ?A = "SettingDefinition ''a'' [] complete_setting"
  let ?B = "SettingDefinition ''b'' []
         [(''label'', PStr ''B''), (''type'', PStr ''bool''), (''description'', PStr ''second''),
          (''enabled'', PFunction ?f)]"
  have table: "distinct (map fst (property_definitions two_settings_env))"
    "''enabled'' \<in> set (getPropertyNames two_settings_env Function)"
    by (simp_all add: example_tables getPropertyNames_def)
  have B: "([Suc 0], ?B) \<in> set (all_definitions two_settings_loaded)"
    "getattr_sd two_settings_env ?B ''enabled'' = Inr (PFunction ?f)"
    by (simp_all add: all_definitions_def two_settings_loaded_def getattr_sd_def example_tables)
  have used: "distinct (getUsedSettings ?f)" "key ?A \<in> set (getUsedSettings ?f)"
    "''ghost'' \<in> set (getUsedSettings ?f)" "key ?A = ''a''" "key ?B = ''b''"
    "getUsedSettings ?f = [''a'', ''ghost'']"
    by simp_all
  have found: "findDefinitions_dc two_settings_loaded (key ?A) = ([0], ?A) # []"
    by (simp add: two_settings_find)
  show ?thesis
    using two_settings_load table B used found two_settings_find
      relation_pairing
        [where n = 0 and E = two_settings_env and cid = "''c''" and catalog = None
           and doc = "''two''" and c = two_settings_loaded and pB = "[Suc 0]" and B = "?B"
           and f = "?f" and A = "?A" and pA = "[0]" and rest = "[]" and s = "''ghost''"]
    by simp
qed

end
